theory Spec2Isabelle
  imports Main "HOL-Library.AList"
begin

section \<open>JavaScript values, objects and the heap\<close>

text \<open>
  The two modules \<^verbatim>\<open>ReactBaseClasses.js\<close> and \<^verbatim>\<open>React.js\<close> build objects, wire
  prototypes and send messages to an updater. The embedding is a small object heap:
  an object has a prototype link, an ordered table of own properties with their
  attributes, an optional piece of code (for function objects) and the extensible bit.
  Numbers are restricted to the integers and \<open>NaN\<close>; that is all \<open>typeof\<close> and
  truthiness can tell apart.
\<close>

type_synonym addr = nat

datatype jsval =
    Undefined
  | Null
  | Boolean bool
  | Number int
  | NaN
  | BigInt int
  | Str string
  | Symbol string
  | Ref addr

datatype code =
    Component_code
  | ComponentDummy_code
  | PureComponent_code
  | setState_code
  | forceUpdate_code
  | Host_code

text \<open>
  A data property carries its value and the attributes writable, enumerable,
  configurable. The only accessor properties of the program are the ones made by
  \<^verbatim>\<open>defineDeprecationWarning\<close>; such a property stores the \<^verbatim>\<open>info\<close> pair its getter
  closes over, and has no setter.
\<close>

datatype pdesc =
    Data jsval bool bool bool
  | Accessor "string \<times> string" bool bool

fun enumerable :: "pdesc \<Rightarrow> bool" where
  "enumerable (Data v w e c) = e"
| "enumerable (Accessor i e c) = e"

fun configurable :: "pdesc \<Rightarrow> bool" where
  "configurable (Data v w e c) = c"
| "configurable (Accessor i e c) = c"

record obj =
  proto :: "addr option"
  props :: "(string \<times> pdesc) list"
  fn :: "code option"
  extensible :: bool

datatype error =
    InvariantViolation string
  | TypeError

text \<open>
  The state: the heap, the next free address, the trace of calls made on updaters
  (receiver, method name, arguments) and the trace of warnings (format, arguments).
\<close>

record state =
  heap :: "addr \<Rightarrow> obj option"
  free :: addr
  calls :: "(jsval \<times> string \<times> jsval list) list"
  warnings :: "(string \<times> string list) list"

text \<open>
  A computation runs on a state and ends in a value or in a thrown error; the state it
  leaves is kept in both cases, since a JavaScript exception does not undo effects.
\<close>

type_synonym 'a js = "state \<Rightarrow> (error + 'a) \<times> state"

definition ret :: "'a \<Rightarrow> 'a js" where
  "ret x s = (Inr x, s)"

definition throw :: "error \<Rightarrow> 'a js" where
  "throw e s = (Inl e, s)"

definition bind :: "'a js \<Rightarrow> ('a \<Rightarrow> 'b js) \<Rightarrow> 'b js" where
  "bind m f s = (case m s of (Inl e, s') \<Rightarrow> (Inl e, s') | (Inr x, s') \<Rightarrow> f x s')"

definition seq :: "unit js \<Rightarrow> 'b js \<Rightarrow> 'b js" where
  "seq m k = bind m (\<lambda>_. k)"

subsection \<open>Language primitives\<close>

definition typeof :: "state \<Rightarrow> jsval \<Rightarrow> string" where
  "typeof s v =
     (case v of
        Undefined \<Rightarrow> ''undefined''
      | Null \<Rightarrow> ''object''
      | Boolean b \<Rightarrow> ''boolean''
      | Number n \<Rightarrow> ''number''
      | NaN \<Rightarrow> ''number''
      | BigInt n \<Rightarrow> ''bigint''
      | Str x \<Rightarrow> ''string''
      | Symbol x \<Rightarrow> ''symbol''
      | Ref a \<Rightarrow>
          (case heap s a of
             None \<Rightarrow> ''object''
           | Some ob \<Rightarrow> if fn ob = None then ''object'' else ''function''))"

text \<open>\<^verbatim>\<open>v == null\<close>: loose equality with null holds for null and undefined only.\<close>

definition loose_eq_null :: "jsval \<Rightarrow> bool" where
  "loose_eq_null v = (v = Null \<or> v = Undefined)"

definition ToBoolean :: "jsval \<Rightarrow> bool" where
  "ToBoolean v =
     (case v of
        Undefined \<Rightarrow> False
      | Null \<Rightarrow> False
      | Boolean b \<Rightarrow> b
      | Number n \<Rightarrow> n \<noteq> 0
      | NaN \<Rightarrow> False
      | BigInt n \<Rightarrow> n \<noteq> 0
      | Str x \<Rightarrow> x \<noteq> []
      | Symbol x \<Rightarrow> True
      | Ref a \<Rightarrow> True)"

text \<open>\<^verbatim>\<open>a || b\<close>\<close>

definition or_else :: "jsval \<Rightarrow> jsval \<Rightarrow> jsval" where
  "or_else a b = (if ToBoolean a then a else b)"

text \<open>
  Property lookup along the prototype chain. A prototype is always an older object
  than its heirs (it exists when the heir is created, and the program never changes a
  prototype link), so the chain descends through the addresses; the guard makes the
  recursion well-founded on any heap.
\<close>

fun lookup :: "(addr \<Rightarrow> obj option) \<Rightarrow> addr \<Rightarrow> string \<Rightarrow> pdesc option" where
  "lookup h a n =
     (case h a of
        None \<Rightarrow> None
      | Some ob \<Rightarrow>
          (case map_of (props ob) n of
             Some p \<Rightarrow> Some p
           | None \<Rightarrow>
               (case proto ob of
                  None \<Rightarrow> None
                | Some b \<Rightarrow> if b < a then lookup h b n else None)))"

declare lookup.simps [simp del]

definition own_prop :: "state \<Rightarrow> addr \<Rightarrow> string \<Rightarrow> pdesc option" where
  "own_prop s a n = (case heap s a of None \<Rightarrow> None | Some ob \<Rightarrow> map_of (props ob) n)"

definition inherited :: "state \<Rightarrow> addr \<Rightarrow> string \<Rightarrow> pdesc option" where
  "inherited s a n =
     (case heap s a of
        None \<Rightarrow> None
      | Some ob \<Rightarrow>
          (case proto ob of
             None \<Rightarrow> None
           | Some b \<Rightarrow> if b < a then lookup (heap s) b n else None))"

text \<open>
  Modelled from the spec: \<^verbatim>\<open>shared/lowPriorityWarning\<close> is imported and not part of the
  sources; the spec calls the deprecated members warning-emitting. A call whose
  condition is false emits one warning, recorded with its format and arguments.
\<close>

definition lowPriorityWarning :: "bool \<Rightarrow> string \<Rightarrow> string list \<Rightarrow> unit js" where
  "lowPriorityWarning condition format args s =
     (if condition then (Inr (), s)
      else (Inr (), s\<lparr>warnings := warnings s @ [(format, args)]\<rparr>))"

text \<open>The getter that \<^verbatim>\<open>defineDeprecationWarning\<close> installs (lines 125 to 133).\<close>

definition deprecation_getter :: "string \<times> string \<Rightarrow> jsval js" where
  "deprecation_getter info =
     seq (lowPriorityWarning False
            ''%s(...) is deprecated in plain JavaScript React classes. %s''
            [fst info, snd info])
         (ret Undefined)"

text \<open>\<^verbatim>\<open>o.n\<close>: reading a property; an accessor property runs its getter.\<close>

definition get :: "addr \<Rightarrow> string \<Rightarrow> jsval js" where
  "get a n s =
     (case lookup (heap s) a n of
        None \<Rightarrow> ret Undefined s
      | Some (Data v w e c) \<Rightarrow> ret v s
      | Some (Accessor info e c) \<Rightarrow> deprecation_getter info s)"

definition set_own :: "addr \<Rightarrow> obj \<Rightarrow> string \<Rightarrow> pdesc \<Rightarrow> unit js" where
  "set_own a ob n p s =
     (Inr (), s\<lparr>heap := (heap s)(a \<mapsto> ob\<lparr>props := AList.update n p (props ob)\<rparr>)\<rparr>)"

text \<open>
  \<^verbatim>\<open>o.n = v\<close> in strict mode (both files are ES modules): writing to a read-only
  property, to an accessor without setter, or adding to a non-extensible object throws
  a TypeError.
\<close>

definition put :: "addr \<Rightarrow> string \<Rightarrow> jsval \<Rightarrow> unit js" where
  "put a n v s =
     (case heap s a of
        None \<Rightarrow> throw TypeError s
      | Some ob \<Rightarrow>
          (case map_of (props ob) n of
             Some (Data v' w e c) \<Rightarrow>
               if w then set_own a ob n (Data v w e c) s else throw TypeError s
           | Some (Accessor info e c) \<Rightarrow> throw TypeError s
           | None \<Rightarrow>
               (case inherited s a n of
                  Some (Accessor info e c) \<Rightarrow> throw TypeError s
                | Some (Data v' w e c) \<Rightarrow>
                    if w \<and> extensible ob then set_own a ob n (Data v True True True) s
                    else throw TypeError s
                | None \<Rightarrow>
                    if extensible ob then set_own a ob n (Data v True True True) s
                    else throw TypeError s)))"

text \<open>The same on a value: a property cannot be created on a primitive.\<close>

definition put_val :: "jsval \<Rightarrow> string \<Rightarrow> jsval \<Rightarrow> unit js" where
  "put_val r n v = (case r of Ref a \<Rightarrow> put a n v | _ \<Rightarrow> throw TypeError)"

text \<open>
  \<^verbatim>\<open>Object.defineProperty(o, n, {get: ...})\<close>: the attributes that the descriptor leaves
  out default to false on a new property and are kept on an existing configurable one.
\<close>

definition defineProperty :: "jsval \<Rightarrow> string \<Rightarrow> string \<times> string \<Rightarrow> unit js" where
  "defineProperty r n info s =
     (case r of
        Ref a \<Rightarrow>
          (case heap s a of
             None \<Rightarrow> throw TypeError s
           | Some ob \<Rightarrow>
               (case map_of (props ob) n of
                  None \<Rightarrow>
                    if extensible ob then set_own a ob n (Accessor info False False) s
                    else throw TypeError s
                | Some p \<Rightarrow>
                    if configurable p
                    then set_own a ob n (Accessor info (enumerable p) (configurable p)) s
                    else throw TypeError s))
      | _ \<Rightarrow> throw TypeError s)"

fun freeze_prop :: "pdesc \<Rightarrow> pdesc" where
  "freeze_prop (Data v w e c) = Data v False e False"
| "freeze_prop (Accessor i e c) = Accessor i e False"

definition Object_freeze :: "addr \<Rightarrow> unit js" where
  "Object_freeze a s =
     (case heap s a of
        None \<Rightarrow> (Inr (), s)
      | Some ob \<Rightarrow>
          (Inr (), s\<lparr>heap := (heap s)(a \<mapsto>
             ob\<lparr>props := map (\<lambda>(n, p). (n, freeze_prop p)) (props ob),
                extensible := False\<rparr>)\<rparr>))"

fun is_frozen_prop :: "pdesc \<Rightarrow> bool" where
  "is_frozen_prop (Data v w e c) = (\<not> w \<and> \<not> c)"
| "is_frozen_prop (Accessor i e c) = (\<not> c)"

definition Object_isFrozen :: "state \<Rightarrow> addr \<Rightarrow> bool" where
  "Object_isFrozen s a =
     (case heap s a of
        None \<Rightarrow> False
      | Some ob \<Rightarrow> \<not> extensible ob \<and> list_all (\<lambda>(n, p). is_frozen_prop p) (props ob))"

text \<open>
  \<^verbatim>\<open>Object.assign(target, source)\<close>: the own keys of the source are taken once, in
  insertion order; each one that is still an enumerable own property is read from the
  source and written to the target. A source that is not an object has no property to
  copy (the indices of a string are not modelled). A target that is null or undefined
  is a TypeError; so is here any other primitive target, for which the language would
  make a wrapper object.
\<close>

fun assign_keys :: "addr \<Rightarrow> addr \<Rightarrow> string list \<Rightarrow> unit js" where
  "assign_keys t src [] s = (Inr (), s)"
| "assign_keys t src (k # ks) s =
     (case own_prop s src k of
        None \<Rightarrow> assign_keys t src ks s
      | Some p \<Rightarrow>
          if enumerable p then
            (case get src k s of
               (Inl e, s1) \<Rightarrow> (Inl e, s1)
             | (Inr v, s1) \<Rightarrow>
                 (case put t k v s1 of
                    (Inl e, s2) \<Rightarrow> (Inl e, s2)
                  | (Inr u, s2) \<Rightarrow> assign_keys t src ks s2))
          else assign_keys t src ks s)"

definition own_keys :: "state \<Rightarrow> addr \<Rightarrow> string list" where
  "own_keys s a = (case heap s a of None \<Rightarrow> [] | Some ob \<Rightarrow> map fst (props ob))"

definition Object_assign :: "jsval \<Rightarrow> jsval \<Rightarrow> unit js" where
  "Object_assign target source s =
     (case target of
        Ref t \<Rightarrow>
          (case source of
             Ref src \<Rightarrow> assign_keys t src (own_keys s src) s
           | _ \<Rightarrow> ret () s)
      | _ \<Rightarrow> throw TypeError s)"

definition alloc :: "obj \<Rightarrow> addr js" where
  "alloc ob s = (Inr (free s), s\<lparr>heap := (heap s)(free s \<mapsto> ob), free := Suc (free s)\<rparr>)"


section \<open>The program\<close>

subsection \<open>Module-level objects\<close>

text \<open>
  The objects that the function declarations, object literals and function expressions
  of \<^verbatim>\<open>ReactBaseClasses.js\<close> create are the static data of the program; each has a
  fixed address. Addresses 0 to 4 belong to what exists before the module runs:
  \<^verbatim>\<open>Object.prototype\<close> and \<^verbatim>\<open>Function.prototype\<close> (their built-in members are not
  modelled) and the imported \<^verbatim>\<open>ReactNoopUpdateQueue\<close> with the two functions it
  exposes. Objects made by \<^verbatim>\<open>new\<close> are
  allocated at \<open>free\<close>, which starts above the static ones; the first of them is the
  \<^verbatim>\<open>new ComponentDummy()\<close> of line 159, and \<open>first_free\<close> is the first address left
  when the module has run.
\<close>

abbreviation Object_prototype :: addr where "Object_prototype \<equiv> 0"
abbreviation Function_prototype :: addr where "Function_prototype \<equiv> 1"
abbreviation ReactNoopUpdateQueue :: addr where "ReactNoopUpdateQueue \<equiv> 2"
abbreviation Noop_enqueueSetState :: addr where "Noop_enqueueSetState \<equiv> 3"
abbreviation Noop_enqueueForceUpdate :: addr where "Noop_enqueueForceUpdate \<equiv> 4"
abbreviation Component_fn :: addr where "Component_fn \<equiv> 5"
abbreviation Component_prototype :: addr where "Component_prototype \<equiv> 6"
abbreviation ComponentDummy_fn :: addr where "ComponentDummy_fn \<equiv> 7"
abbreviation ComponentDummy_prototype0 :: addr where "ComponentDummy_prototype0 \<equiv> 8"
abbreviation PureComponent_fn :: addr where "PureComponent_fn \<equiv> 9"
abbreviation PureComponent_prototype0 :: addr where "PureComponent_prototype0 \<equiv> 10"
abbreviation emptyObject :: addr where "emptyObject \<equiv> 11"
abbreviation isReactComponent_obj :: addr where "isReactComponent_obj \<equiv> 12"
abbreviation setState_fn :: addr where "setState_fn \<equiv> 13"
abbreviation setState_prototype0 :: addr where "setState_prototype0 \<equiv> 14"
abbreviation forceUpdate_fn :: addr where "forceUpdate_fn \<equiv> 15"
abbreviation forceUpdate_prototype0 :: addr where "forceUpdate_prototype0 \<equiv> 16"
abbreviation pureComponentPrototype :: addr where "pureComponentPrototype \<equiv> 17"
abbreviation first_free :: addr where "first_free \<equiv> 18"

definition plain_object :: obj where
  "plain_object = \<lparr>proto = Some Object_prototype, props = [], fn = None, extensible = True\<rparr>"

text \<open>An object literal: every member is a writable, enumerable, configurable data property.\<close>

definition object_literal :: "(string \<times> jsval) list \<Rightarrow> obj" where
  "object_literal kvs = plain_object\<lparr>props := map (\<lambda>(n, v). (n, Data v True True True)) kvs\<rparr>"

text \<open>
  A function object comes with a fresh prototype object: \<^verbatim>\<open>F.prototype\<close> is writable
  and neither enumerable nor configurable, \<^verbatim>\<open>F.prototype.constructor\<close> is writable and
  configurable but not enumerable.
\<close>

definition function_object :: "code \<Rightarrow> addr \<Rightarrow> obj" where
  "function_object c P =
     \<lparr>proto = Some Function_prototype,
      props = [(''prototype'', Data (Ref P) True False False)],
      fn = Some c, extensible = True\<rparr>"

definition prototype_object :: "addr \<Rightarrow> obj" where
  "prototype_object F = plain_object\<lparr>props := [(''constructor'', Data (Ref F) True False True)]\<rparr>"

definition create :: "addr \<Rightarrow> obj \<Rightarrow> unit js" where
  "create a ob s = (Inr (), s\<lparr>heap := (heap s)(a \<mapsto> ob)\<rparr>)"

definition declare_function :: "addr \<Rightarrow> addr \<Rightarrow> code \<Rightarrow> unit js" where
  "declare_function F P c = seq (create F (function_object c P)) (create P (prototype_object F))"

text \<open>A function whose code lies outside the sources.\<close>

definition host_function :: obj where
  "host_function =
     \<lparr>proto = Some Function_prototype, props = [], fn = Some Host_code, extensible = True\<rparr>"

text \<open>
  Modelled from the spec: the module \<^verbatim>\<open>./ReactNoopUpdateQueue\<close> is imported and not part
  of the sources; the spec calls it the no-op placeholder updater, and an updater
  exposes \<^verbatim>\<open>enqueueSetState\<close> and \<^verbatim>\<open>enqueueForceUpdate\<close>. It is an object with these
  two members, each a function of its own whose code lies outside the sources.
\<close>

definition realm :: state where
  "realm =
     \<lparr>heap = [Object_prototype \<mapsto> \<lparr>proto = None, props = [], fn = None, extensible = True\<rparr>,
              Function_prototype \<mapsto>
                \<lparr>proto = Some Object_prototype, props = [], fn = Some Host_code,
                 extensible = True\<rparr>,
              ReactNoopUpdateQueue \<mapsto>
                object_literal
                  [(''enqueueSetState'', Ref Noop_enqueueSetState),
                   (''enqueueForceUpdate'', Ref Noop_enqueueForceUpdate)],
              Noop_enqueueSetState \<mapsto> host_function,
              Noop_enqueueForceUpdate \<mapsto> host_function],
      free = pureComponentPrototype, calls = [], warnings = []\<rparr>"

text \<open>
  \<^verbatim>\<open>new F(...)\<close>, before the body of \<open>F\<close> runs: a fresh extensible object whose prototype
  is \<^verbatim>\<open>F.prototype\<close> if that is an object, and \<^verbatim>\<open>Object.prototype\<close> otherwise.
\<close>

definition new_object :: "addr \<Rightarrow> addr js" where
  "new_object F =
     bind (get F ''prototype'')
       (\<lambda>p. alloc (plain_object\<lparr>proto := Some (case p of Ref a \<Rightarrow> a | _ \<Rightarrow> Object_prototype)\<rparr>))"

subsection \<open>Collaborators\<close>

text \<open>
  Modelled from the spec: \<^verbatim>\<open>shared/invariant\<close> is imported and not part of the sources;
  the spec says a failed check signals an invariant violation with a descriptive error.
\<close>

definition invariant :: "bool \<Rightarrow> string \<Rightarrow> unit js" where
  "invariant condition format =
     (if condition then ret () else throw (InvariantViolation format))"

text \<open>
  Modelled from the spec: an updater is an external collaborator that exposes
  \<^verbatim>\<open>enqueueSetState(instance, partialState, callback, label)\<close> and
  \<^verbatim>\<open>enqueueForceUpdate(instance, callback, label)\<close>; what these functions do is owned
  by the renderer. The call of a function reached as a member of an updater is
  recorded in the trace \<open>calls\<close> with its receiver, member name and arguments; the body
  of the function is not run, and the rest of the state is left alone.
\<close>

definition updater_call :: "jsval \<Rightarrow> string \<Rightarrow> jsval list \<Rightarrow> unit js" where
  "updater_call u m args s = (Inr (), s\<lparr>calls := calls s @ [(u, m, args)]\<rparr>)"

text \<open>
  \<^verbatim>\<open>r.m(args)\<close>: the member is read, then called. Reading a member of undefined or
  null is a TypeError. A primitive receiver finds its members on its wrapper
  prototype, whose built-in members are not modelled, and from there on
  \<^verbatim>\<open>Object.prototype\<close>. Calling a value that is not a function is a TypeError.
\<close>

definition call_method :: "jsval \<Rightarrow> string \<Rightarrow> jsval list \<Rightarrow> unit js" where
  "call_method r m args =
     (case r of
        Undefined \<Rightarrow> throw TypeError
      | Null \<Rightarrow> throw TypeError
      | _ \<Rightarrow>
          bind (get (case r of Ref a \<Rightarrow> a | _ \<Rightarrow> Object_prototype) m)
            (\<lambda>f s. if typeof s f = ''function'' then updater_call r m args s
                   else throw TypeError s))"

subsection \<open>ReactBaseClasses.js\<close>

text \<open>\<^verbatim>\<open>function Component(props, context, updater)\<close>, lines 22 to 33.\<close>

definition Component :: "addr \<Rightarrow> jsval \<Rightarrow> jsval \<Rightarrow> jsval \<Rightarrow> unit js" where
  "Component this props' context updater =
     seq (put this ''props'' props')
    (seq (put this ''context'' context)
    (seq (put this ''refs'' (Ref emptyObject))
         (put this ''updater'' (or_else updater (Ref ReactNoopUpdateQueue)))))"

text \<open>\<^verbatim>\<open>Component.prototype.setState\<close>, lines 73 to 82.\<close>

definition setState :: "addr \<Rightarrow> jsval \<Rightarrow> jsval \<Rightarrow> unit js" where
  "setState this partialState callback s =
     seq (invariant
            (typeof s partialState = ''object'' \<or>
             typeof s partialState = ''function'' \<or>
             loose_eq_null partialState)
            (''setState(...): takes an object of state variables to update or a '' @
             ''function which returns an object of state variables.''))
         (bind (get this ''updater'')
            (\<lambda>u. call_method u ''enqueueSetState''
                    [Ref this, partialState, callback, Str ''setState'']))
       s"

text \<open>\<^verbatim>\<open>Component.prototype.forceUpdate\<close>, lines 101 to 103.\<close>

definition forceUpdate :: "addr \<Rightarrow> jsval \<Rightarrow> unit js" where
  "forceUpdate this callback =
     bind (get this ''updater'')
       (\<lambda>u. call_method u ''enqueueForceUpdate'' [Ref this, callback, Str ''forceUpdate''])"

text \<open>The table \<^verbatim>\<open>deprecatedAPIs\<close>, lines 111 to 122: method name and \<^verbatim>\<open>info\<close> pair.\<close>

definition deprecatedAPIs :: "(string \<times> string \<times> string) list" where
  "deprecatedAPIs =
     [(''isMounted'',
       (''isMounted'',
        ''Instead, make sure to clean up subscriptions and pending requests in '' @
        ''componentWillUnmount to prevent memory leaks.'')),
      (''replaceState'',
       (''replaceState'',
        ''Refactor your code to use setState instead (see '' @
        ''https://github.com/facebook/react/issues/3236).''))]"

text \<open>\<^verbatim>\<open>defineDeprecationWarning\<close>, lines 123 to 135.\<close>

definition defineDeprecationWarning :: "string \<Rightarrow> string \<times> string \<Rightarrow> unit js" where
  "defineDeprecationWarning methodName info =
     bind (get Component_fn ''prototype'') (\<lambda>p. defineProperty p methodName info)"

text \<open>
  The loop of lines 136 to 140 over the keys of the table, in insertion order; every
  key is an own property of the table, so the \<^verbatim>\<open>hasOwnProperty\<close> test passes.
\<close>

fun for_in :: "(string \<times> string \<times> string) list \<Rightarrow> unit js" where
  "for_in [] s = (Inr (), s)"
| "for_in ((fnName, info) # rest) s =
     (case defineDeprecationWarning fnName info s of
        (Inl e, s1) \<Rightarrow> (Inl e, s1)
      | (Inr u, s1) \<Rightarrow> for_in rest s1)"

text \<open>\<^verbatim>\<open>function PureComponent(props, context, updater)\<close>, lines 150 to 157.\<close>

definition PureComponent :: "addr \<Rightarrow> jsval \<Rightarrow> jsval \<Rightarrow> jsval \<Rightarrow> unit js" where
  "PureComponent this props' context updater =
     seq (put this ''props'' props')
    (seq (put this ''context'' context)
    (seq (put this ''refs'' (Ref emptyObject))
         (put this ''updater'' (or_else updater (Ref ReactNoopUpdateQueue)))))"

text \<open>\<^verbatim>\<open>new Component(props, context, updater)\<close> and \<^verbatim>\<open>new PureComponent(...)\<close>.\<close>

definition new_Component :: "jsval \<Rightarrow> jsval \<Rightarrow> jsval \<Rightarrow> addr js" where
  "new_Component props' context updater =
     bind (new_object Component_fn)
       (\<lambda>this. seq (Component this props' context updater) (ret this))"

definition new_PureComponent :: "jsval \<Rightarrow> jsval \<Rightarrow> jsval \<Rightarrow> addr js" where
  "new_PureComponent props' context updater =
     bind (new_object PureComponent_fn)
       (\<lambda>this. seq (PureComponent this props' context updater) (ret this))"

text \<open>
  The module body, statement by statement; \<open>dev\<close> is \<^verbatim>\<open>__DEV__\<close>. The three function
  declarations are hoisted. \<^verbatim>\<open>new ComponentDummy()\<close> runs an empty body.
\<close>

definition ReactBaseClasses :: "bool \<Rightarrow> unit js" where
  "ReactBaseClasses dev =
     seq (declare_function Component_fn Component_prototype Component_code)
    (seq (declare_function ComponentDummy_fn ComponentDummy_prototype0 ComponentDummy_code)
    (seq (declare_function PureComponent_fn PureComponent_prototype0 PureComponent_code)
    (seq (create emptyObject plain_object)
    (seq (if dev then Object_freeze emptyObject else ret ())
    (seq (create isReactComponent_obj plain_object)
    (seq (bind (get Component_fn ''prototype'')
            (\<lambda>p. put_val p ''isReactComponent'' (Ref isReactComponent_obj)))
    (seq (declare_function setState_fn setState_prototype0 setState_code)
    (seq (bind (get Component_fn ''prototype'')
            (\<lambda>p. put_val p ''setState'' (Ref setState_fn)))
    (seq (declare_function forceUpdate_fn forceUpdate_prototype0 forceUpdate_code)
    (seq (bind (get Component_fn ''prototype'')
            (\<lambda>p. put_val p ''forceUpdate'' (Ref forceUpdate_fn)))
    (seq (if dev then for_in deprecatedAPIs else ret ())
    (seq (bind (get Component_fn ''prototype'')
            (\<lambda>p. put ComponentDummy_fn ''prototype'' p))
    (bind (bind (new_object ComponentDummy_fn)
             (\<lambda>a. seq (put PureComponent_fn ''prototype'' (Ref a)) (ret a)))
       (\<lambda>pcp.
          seq (put pcp ''constructor'' (Ref PureComponent_fn))
         (seq (bind (get Component_fn ''prototype'') (\<lambda>p. Object_assign (Ref pcp) p))
              (put pcp ''isPureReactComponent'' (Boolean True)))))))))))))))))"

definition loaded_state :: "bool \<Rightarrow> state" where
  "loaded_state dev = snd (ReactBaseClasses dev realm)"


text \<open>
  A state in which the module is loaded: its objects are as the module body left them,
  and everything allocated since lies above them.
\<close>

definition loaded :: "bool \<Rightarrow> state \<Rightarrow> bool" where
  "loaded dev s =
     (map (heap s) [0..<first_free] = map (heap (loaded_state dev)) [0..<first_free] \<and>
      first_free \<le> free s)"


subsection \<open>React.js\<close>

text \<open>
  The facade. Its imports other than \<^verbatim>\<open>Component\<close> and \<^verbatim>\<open>PureComponent\<close> come from
  modules outside the sources; \<open>imp\<close> gives the value of each imported binding by its
  name, \<open>dev\<close> is \<^verbatim>\<open>__DEV__\<close> and \<open>enableStableConcurrentModeAPIs\<close> the imported
  feature flag. Lines 101 to 113 of the file are the markers of an unresolved merge
  whose two sides hold comments only; the program is the same under either resolution.
\<close>

definition React_Children :: "(string \<Rightarrow> jsval) \<Rightarrow> obj" where
  "React_Children imp =
     object_literal
       [(''map'', imp ''map''),
        (''forEach'', imp ''forEach''),
        (''count'', imp ''count''),
        (''toArray'', imp ''toArray''),
        (''only'', imp ''only'')]"

definition React_literal :: "bool \<Rightarrow> (string \<Rightarrow> jsval) \<Rightarrow> addr \<Rightarrow> obj" where
  "React_literal dev imp children =
     object_literal
       [(''Children'', Ref children),
        (''createRef'', imp ''createRef''),
        (''Component'', Ref Component_fn),
        (''PureComponent'', Ref PureComponent_fn),
        (''createContext'', imp ''createContext''),
        (''forwardRef'', imp ''forwardRef''),
        (''lazy'', imp ''lazy''),
        (''memo'', imp ''memo''),
        (''error'', imp ''error''),
        (''warn'', imp ''warn''),
        (''useCallback'', imp ''useCallback''),
        (''useContext'', imp ''useContext''),
        (''useEffect'', imp ''useEffect''),
        (''useImperativeHandle'', imp ''useImperativeHandle''),
        (''useDebugValue'', imp ''useDebugValue''),
        (''useLayoutEffect'', imp ''useLayoutEffect''),
        (''useMemo'', imp ''useMemo''),
        (''useReducer'', imp ''useReducer''),
        (''useRef'', imp ''useRef''),
        (''useState'', imp ''useState''),
        (''Fragment'', imp ''REACT_FRAGMENT_TYPE''),
        (''Profiler'', imp ''REACT_PROFILER_TYPE''),
        (''StrictMode'', imp ''REACT_STRICT_MODE_TYPE''),
        (''Suspense'', imp ''REACT_SUSPENSE_TYPE''),
        (''createElement'',
         if dev then imp ''createElementWithValidation'' else imp ''createElement''),
        (''cloneElement'',
         if dev then imp ''cloneElementWithValidation'' else imp ''cloneElement''),
        (''createFactory'',
         if dev then imp ''createFactoryWithValidation'' else imp ''createFactory''),
        (''isValidElement'', imp ''isValidElement''),
        (''version'', imp ''ReactVersion''),
        (''unstable_ConcurrentMode'', imp ''REACT_CONCURRENT_MODE_TYPE''),
        (''__SECRET_INTERNALS_DO_NOT_USE_OR_YOU_WILL_BE_FIRED'', imp ''ReactSharedInternals'')]"

text \<open>
  The module body: the namespace object of lines 51 to 98 (with the nested
  \<^verbatim>\<open>Children\<close> object), then the gated statements of lines 115 to 118. The result is
  the default export.
\<close>

definition React :: "bool \<Rightarrow> bool \<Rightarrow> (string \<Rightarrow> jsval) \<Rightarrow> addr js" where
  "React dev enableStableConcurrentModeAPIs imp =
     bind (alloc (React_Children imp))
       (\<lambda>children.
          bind (alloc (React_literal dev imp children))
            (\<lambda>namespace.
               seq (if enableStableConcurrentModeAPIs
                    then seq (put namespace ''ConcurrentMode''
                                (imp ''REACT_CONCURRENT_MODE_TYPE''))
                             (put namespace ''unstable_ConcurrentMode'' Undefined)
                    else ret ())
                   (ret namespace)))"

subsection \<open>Tables used to state what the module body builds\<close>

definition Component_prototype_props :: "bool \<Rightarrow> (string \<times> pdesc) list" where
  "Component_prototype_props dev =
     [(''constructor'', Data (Ref Component_fn) True False True),
      (''isReactComponent'', Data (Ref isReactComponent_obj) True True True),
      (''setState'', Data (Ref setState_fn) True True True),
      (''forceUpdate'', Data (Ref forceUpdate_fn) True True True)] @
     (if dev then map (\<lambda>(n, info). (n, Accessor info False False)) deprecatedAPIs else [])"

definition pureComponentPrototype_props :: "(string \<times> pdesc) list" where
  "pureComponentPrototype_props =
     [(''constructor'', Data (Ref PureComponent_fn) True True True),
      (''isReactComponent'', Data (Ref isReactComponent_obj) True True True),
      (''setState'', Data (Ref setState_fn) True True True),
      (''forceUpdate'', Data (Ref forceUpdate_fn) True True True),
      (''isPureReactComponent'', Data (Boolean True) True True True)]"

definition instance_props :: "jsval \<Rightarrow> jsval \<Rightarrow> jsval \<Rightarrow> (string \<times> pdesc) list" where
  "instance_props p c u =
     [(''props'', Data p True True True),
      (''context'', Data c True True True),
      (''refs'', Data (Ref emptyObject) True True True),
      (''updater'', Data (or_else u (Ref ReactNoopUpdateQueue)) True True True)]"

definition instance_obj :: "addr \<Rightarrow> jsval \<Rightarrow> jsval \<Rightarrow> jsval \<Rightarrow> obj" where
  "instance_obj P p c u =
     \<lparr>proto = Some P, props = instance_props p c u, fn = None, extensible = True\<rparr>"

text \<open>The namespace object after the two gated assignments.\<close>

definition React_flagged :: "bool \<Rightarrow> (string \<Rightarrow> jsval) \<Rightarrow> addr \<Rightarrow> obj" where
  "React_flagged dev imp children =
     (React_literal dev imp children)
       \<lparr>props :=
          AList.update ''unstable_ConcurrentMode'' (Data Undefined True True True)
            (props (React_literal dev imp children) @
             [(''ConcurrentMode'', Data (imp ''REACT_CONCURRENT_MODE_TYPE'') True True True)])\<rparr>"

subsection \<open>A sample run\<close>

text \<open>
  The development build right after \<^verbatim>\<open>new Component('props', null)\<close> and after
  \<^verbatim>\<open>new PureComponent('props', null)\<close>; the instance is at \<open>first_free\<close> in both.
\<close>

definition sample :: state where
  "sample = snd (new_Component (Str ''props'') Null Undefined (loaded_state True))"

definition pure_sample :: state where
  "pure_sample = snd (new_PureComponent (Str ''props'') Null Undefined (loaded_state True))"

text \<open>
  The development build after a renderer has allocated an object of its own, at
  \<open>first_free\<close>, to serve as updater.
\<close>

definition renderer_state :: state where
  "renderer_state = snd (alloc plain_object (loaded_state True))"

section \<open>Evaluating the module body\<close>

lemmas js_defs =
  ret_def throw_def bind_def seq_def create_def declare_function_def put_def put_val_def
  set_own_def get_def own_prop_def inherited_def alloc_def new_object_def Object_freeze_def
  Object_assign_def own_keys_def defineProperty_def defineDeprecationWarning_def
  deprecatedAPIs_def plain_object_def function_object_def prototype_object_def
  object_literal_def lowPriorityWarning_def deprecation_getter_def

lemma ReactBaseClasses_realm:
  "ReactBaseClasses dev realm =
     (Inr (),
      \<lparr>heap =
         [Object_prototype \<mapsto> \<lparr>proto = None, props = [], fn = None, extensible = True\<rparr>,
          Function_prototype \<mapsto>
            \<lparr>proto = Some Object_prototype, props = [], fn = Some Host_code,
             extensible = True\<rparr>,
          ReactNoopUpdateQueue \<mapsto>
            object_literal
              [(''enqueueSetState'', Ref Noop_enqueueSetState),
               (''enqueueForceUpdate'', Ref Noop_enqueueForceUpdate)],
          Noop_enqueueSetState \<mapsto> host_function,
          Noop_enqueueForceUpdate \<mapsto> host_function,
          Component_fn \<mapsto> function_object Component_code Component_prototype,
          ComponentDummy_prototype0 \<mapsto> prototype_object ComponentDummy_fn,
          PureComponent_prototype0 \<mapsto> prototype_object PureComponent_fn,
          emptyObject \<mapsto> plain_object\<lparr>extensible := \<not> dev\<rparr>,
          isReactComponent_obj \<mapsto> plain_object,
          setState_fn \<mapsto> function_object setState_code setState_prototype0,
          setState_prototype0 \<mapsto> prototype_object setState_fn,
          forceUpdate_fn \<mapsto> function_object forceUpdate_code forceUpdate_prototype0,
          forceUpdate_prototype0 \<mapsto> prototype_object forceUpdate_fn,
          Component_prototype \<mapsto> plain_object\<lparr>props := Component_prototype_props dev\<rparr>,
          ComponentDummy_fn \<mapsto> function_object ComponentDummy_code Component_prototype,
          PureComponent_fn \<mapsto> function_object PureComponent_code pureComponentPrototype,
          pureComponentPrototype \<mapsto>
            \<lparr>proto = Some Component_prototype, props = pureComponentPrototype_props,
             fn = None, extensible = True\<rparr>],
       free = first_free, calls = [], warnings = []\<rparr>)"
  by (simp add: ReactBaseClasses_def realm_def js_defs lookup.simps
      Component_prototype_props_def pureComponentPrototype_props_def)

lemma loaded_heap: "loaded dev s \<Longrightarrow> a < first_free \<Longrightarrow> heap s a = heap (loaded_state dev) a"
  unfolding loaded_def by (auto simp del: upt_rec_numeral)

lemma heap_loaded_state:
  "heap (loaded_state dev) Object_prototype =
     Some \<lparr>proto = None, props = [], fn = None, extensible = True\<rparr>"
  "heap (loaded_state dev) Component_fn = Some (function_object Component_code Component_prototype)"
  "heap (loaded_state dev) PureComponent_fn =
     Some (function_object PureComponent_code pureComponentPrototype)"
  "heap (loaded_state dev) Component_prototype =
     Some (plain_object\<lparr>props := Component_prototype_props dev\<rparr>)"
  "heap (loaded_state dev) pureComponentPrototype =
     Some \<lparr>proto = Some Component_prototype, props = pureComponentPrototype_props,
           fn = None, extensible = True\<rparr>"
  "heap (loaded_state dev) emptyObject = Some (plain_object\<lparr>extensible := \<not> dev\<rparr>)"
  "heap (loaded_state dev) ReactNoopUpdateQueue =
     Some (object_literal
             [(''enqueueSetState'', Ref Noop_enqueueSetState),
              (''enqueueForceUpdate'', Ref Noop_enqueueForceUpdate)])"
  "heap (loaded_state dev) Noop_enqueueSetState = Some host_function"
  "heap (loaded_state dev) Noop_enqueueForceUpdate = Some host_function"
  by (simp_all add: loaded_state_def ReactBaseClasses_realm)

lemma free_loaded_state: "free (loaded_state dev) = first_free"
  by (simp add: loaded_state_def ReactBaseClasses_realm)

lemma loaded_loaded_state: "loaded dev (loaded_state dev)"
  by (simp add: loaded_def free_loaded_state del: upt_rec_numeral)

lemma lookup_Object_prototype:
  "loaded dev s \<Longrightarrow> lookup (heap s) Object_prototype n = None"
  by (simp add: lookup.simps loaded_heap heap_loaded_state)

lemma lookup_Component_prototype:
  "loaded dev s \<Longrightarrow> lookup (heap s) Component_prototype n = map_of (Component_prototype_props dev) n"
  by (simp add: lookup.simps [of _ Component_prototype] loaded_heap heap_loaded_state
      lookup_Object_prototype plain_object_def split: option.splits)

lemma lookup_pureComponentPrototype:
  "loaded dev s \<Longrightarrow>
   lookup (heap s) pureComponentPrototype n =
     (case map_of pureComponentPrototype_props n of
        Some p \<Rightarrow> Some p
      | None \<Rightarrow> map_of (Component_prototype_props dev) n)"
  by (simp add: lookup.simps [of _ pureComponentPrototype] loaded_heap heap_loaded_state
      lookup_Component_prototype split: option.splits)

lemma lookup_fn_prototype:
  "loaded dev s \<Longrightarrow>
   lookup (heap s) Component_fn ''prototype'' = Some (Data (Ref Component_prototype) True False False)"
  "loaded dev s \<Longrightarrow>
   lookup (heap s) PureComponent_fn ''prototype'' =
     Some (Data (Ref pureComponentPrototype) True False False)"
  by (simp_all add: lookup.simps [of _ Component_fn] lookup.simps [of _ PureComponent_fn]
      loaded_heap heap_loaded_state function_object_def)

section \<open>Construction in a loaded state\<close>

lemma lookup_agree:
  "(\<And>b. b \<le> a \<Longrightarrow> h b = h' b) \<Longrightarrow> lookup h a n = lookup h' a n"
proof (induction h a n rule: lookup.induct)
  case (1 h a n)
  have here: "h a = h' a" using "1.prems" by simp
  show ?case
  proof (cases "h a")
    case None
    with here show ?thesis by (simp add: lookup.simps [of _ a])
  next
    case (Some ob)
    show ?thesis
    proof (cases "map_of (props ob) n")
      case (Some p)
      with \<open>h a = Some ob\<close> here show ?thesis by (simp add: lookup.simps [of _ a])
    next
      case None
      show ?thesis
      proof (cases "proto ob")
        case None
        with \<open>h a = Some ob\<close> \<open>map_of (props ob) n = None\<close> here show ?thesis
          by (simp add: lookup.simps [of _ a])
      next
        case (Some b)
        show ?thesis
        proof (cases "b < a")
          case True
          have "lookup h b n = lookup h' b n"
            using "1.IH" [OF \<open>h a = Some ob\<close> \<open>map_of (props ob) n = None\<close> Some True]
              "1.prems" True by simp
          with \<open>h a = Some ob\<close> \<open>map_of (props ob) n = None\<close> Some True here show ?thesis
            by (simp add: lookup.simps [of _ a])
        next
          case False
          with \<open>h a = Some ob\<close> \<open>map_of (props ob) n = None\<close> Some here show ?thesis
            by (simp add: lookup.simps [of _ a])
        qed
      qed
    qed
  qed
qed

lemma lookup_upd_above: "a < b \<Longrightarrow> lookup (h(b := x)) a n = lookup h a n"
  by (rule lookup_agree) simp

lemma field_not_inherited:
  "n \<in> {''props'', ''context'', ''refs'', ''updater''} \<Longrightarrow>
   map_of (Component_prototype_props dev) n = None \<and> map_of pureComponentPrototype_props n = None"
  by (auto simp: Component_prototype_props_def pureComponentPrototype_props_def deprecatedAPIs_def)

lemma update_absent: "map_of al k = None \<Longrightarrow> AList.update k v al = al @ [(k, v)]"
  by (induction al) (auto split: if_splits)

lemma put_field:
  assumes "loaded dev s" and "first_free \<le> this"
    and "heap s this = Some ob" and "proto ob = Some P"
    and "P = Component_prototype \<or> P = pureComponentPrototype"
    and "extensible ob" and "map_of (props ob) n = None"
    and "n \<in> {''props'', ''context'', ''refs'', ''updater''}"
  shows "put this n v s =
           (Inr (), s\<lparr>heap := (heap s)(this \<mapsto> ob\<lparr>props := props ob @ [(n, Data v True True True)]\<rparr>)\<rparr>)"
proof -
  have "lookup (heap s) P n = None"
    using assms(1,5) field_not_inherited [OF assms(8), of dev]
    by (auto simp: lookup_Component_prototype lookup_pureComponentPrototype)
  moreover have "P < this" using assms(2,5) by auto
  ultimately have "inherited s this n = None"
    using assms(3,4) by (simp add: inherited_def)
  moreover have "AList.update n (Data v True True True) (props ob) =
      props ob @ [(n, Data v True True True)]"
    using assms(7) by (rule update_absent)
  ultimately show ?thesis
    using assms(3,6,7) by (simp add: put_def set_own_def)
qed


lemma new_object_loaded:
  assumes "loaded dev s"
  shows "new_object Component_fn s =
           (Inr (free s),
            s\<lparr>heap := (heap s)(free s \<mapsto> plain_object\<lparr>proto := Some Component_prototype\<rparr>),
              free := Suc (free s)\<rparr>)"
    and "new_object PureComponent_fn s =
           (Inr (free s),
            s\<lparr>heap := (heap s)(free s \<mapsto> plain_object\<lparr>proto := Some pureComponentPrototype\<rparr>),
              free := Suc (free s)\<rparr>)"
  using assms
  by (simp_all add: new_object_def bind_def get_def ret_def alloc_def lookup_fn_prototype)

lemma loaded_alloc:
  assumes "loaded dev s" and "first_free \<le> a" and "free s \<le> k"
  shows "loaded dev (s\<lparr>heap := (heap s)(a \<mapsto> ob), free := k\<rparr>)"
  using assms unfolding loaded_def by (auto simp del: upt_rec_numeral)

lemma constructor_body:
  assumes "loaded dev s" and "first_free \<le> this"
    and "heap s this = Some (plain_object\<lparr>proto := Some P\<rparr>)"
    and "P = Component_prototype \<or> P = pureComponentPrototype"
  shows "Component this p c u s = (Inr (), s\<lparr>heap := (heap s)(this \<mapsto> instance_obj P p c u)\<rparr>)"
    and "PureComponent this p c u s = (Inr (), s\<lparr>heap := (heap s)(this \<mapsto> instance_obj P p c u)\<rparr>)"
proof -
  let ?o1 = "plain_object\<lparr>proto := Some P, props := [(''props'', Data p True True True)]\<rparr>"
  let ?o2 = "?o1\<lparr>props := props ?o1 @ [(''context'', Data c True True True)]\<rparr>"
  let ?o3 = "?o2\<lparr>props := props ?o2 @ [(''refs'', Data (Ref emptyObject) True True True)]\<rparr>"
  let ?s1 = "s\<lparr>heap := (heap s)(this \<mapsto> ?o1)\<rparr>"
  let ?s2 = "s\<lparr>heap := (heap s)(this \<mapsto> ?o2)\<rparr>"
  let ?s3 = "s\<lparr>heap := (heap s)(this \<mapsto> ?o3)\<rparr>"
  have l1: "loaded dev ?s1" and l2: "loaded dev ?s2" and l3: "loaded dev ?s3"
    using assms(1,2) unfolding loaded_def by (auto simp del: upt_rec_numeral)
  have p1: "put this ''props'' p s = (Inr (), ?s1)"
    using put_field [OF assms(1,2,3) _ assms(4), of "''props''" p]
    by (simp add: plain_object_def)
  have p2: "put this ''context'' c ?s1 = (Inr (), ?s2)"
    using put_field [OF l1 assms(2) _ _ assms(4), of ?o1 "''context''" c]
    by (simp add: plain_object_def)
  have p3: "put this ''refs'' (Ref emptyObject) ?s2 = (Inr (), ?s3)"
    using put_field [OF l2 assms(2) _ _ assms(4), of ?o2 "''refs''" "Ref emptyObject"]
    by (simp add: plain_object_def)
  have p4: "put this ''updater'' (or_else u (Ref ReactNoopUpdateQueue)) ?s3 =
      (Inr (), s\<lparr>heap := (heap s)(this \<mapsto> instance_obj P p c u)\<rparr>)"
    using put_field [OF l3 assms(2) _ _ assms(4), of ?o3 "''updater''"
        "or_else u (Ref ReactNoopUpdateQueue)"]
    by (simp add: plain_object_def instance_obj_def instance_props_def)
  show "Component this p c u s = (Inr (), s\<lparr>heap := (heap s)(this \<mapsto> instance_obj P p c u)\<rparr>)"
    unfolding Component_def seq_def bind_def by (simp only: p1 p2 p3 p4 prod.case sum.case)
  show "PureComponent this p c u s = (Inr (), s\<lparr>heap := (heap s)(this \<mapsto> instance_obj P p c u)\<rparr>)"
    unfolding PureComponent_def seq_def bind_def by (simp only: p1 p2 p3 p4 prod.case sum.case)
qed

lemma new_Component_loaded:
  assumes "loaded dev s"
  shows "new_Component p c u s =
           (Inr (free s),
            s\<lparr>heap := (heap s)(free s \<mapsto> instance_obj Component_prototype p c u),
              free := Suc (free s)\<rparr>)"
proof -
  let ?s0 = "s\<lparr>heap := (heap s)(free s \<mapsto> plain_object\<lparr>proto := Some Component_prototype\<rparr>),
               free := Suc (free s)\<rparr>"
  have fr: "first_free \<le> free s" using assms by (simp add: loaded_def)
  have l0: "loaded dev ?s0" using assms fr by (intro loaded_alloc) simp_all
  have "Component (free s) p c u ?s0 =
      (Inr (), ?s0\<lparr>heap := (heap ?s0)(free s \<mapsto> instance_obj Component_prototype p c u)\<rparr>)"
    by (rule constructor_body(1) [OF l0 fr]) simp_all
  then show ?thesis
    by (simp add: new_Component_def bind_def seq_def ret_def new_object_loaded [OF assms])
qed

lemma new_PureComponent_loaded:
  assumes "loaded dev s"
  shows "new_PureComponent p c u s =
           (Inr (free s),
            s\<lparr>heap := (heap s)(free s \<mapsto> instance_obj pureComponentPrototype p c u),
              free := Suc (free s)\<rparr>)"
proof -
  let ?s0 = "s\<lparr>heap := (heap s)(free s \<mapsto> plain_object\<lparr>proto := Some pureComponentPrototype\<rparr>),
               free := Suc (free s)\<rparr>"
  have fr: "first_free \<le> free s" using assms by (simp add: loaded_def)
  have l0: "loaded dev ?s0" using assms fr by (intro loaded_alloc) simp_all
  have "PureComponent (free s) p c u ?s0 =
      (Inr (), ?s0\<lparr>heap := (heap ?s0)(free s \<mapsto> instance_obj pureComponentPrototype p c u)\<rparr>)"
    by (rule constructor_body(2) [OF l0 fr]) simp_all
  then show ?thesis
    by (simp add: new_PureComponent_def bind_def seq_def ret_def new_object_loaded [OF assms])
qed

lemma loaded_new:
  assumes "loaded dev s"
  shows "loaded dev (snd (new_Component p c u s))"
    and "loaded dev (snd (new_PureComponent p c u s))"
proof -
  have fr: "first_free \<le> free s" using assms by (simp add: loaded_def)
  show "loaded dev (snd (new_Component p c u s))"
    unfolding new_Component_loaded [OF assms] snd_conv
    by (rule loaded_alloc [OF assms fr]) simp
  show "loaded dev (snd (new_PureComponent p c u s))"
    unfolding new_PureComponent_loaded [OF assms] snd_conv
    by (rule loaded_alloc [OF assms fr]) simp
qed

lemma lookup_Component_instance:
  assumes "loaded dev s"
  shows "lookup (heap (snd (new_Component p c u s))) (free s) n =
           (case map_of (instance_props p c u) n of
              Some d \<Rightarrow> Some d
            | None \<Rightarrow> map_of (Component_prototype_props dev) n)"
proof -
  have fr: "first_free \<le> free s" using assms by (simp add: loaded_def)
  have "lookup (heap (snd (new_Component p c u s))) Component_prototype n =
      map_of (Component_prototype_props dev) n"
    by (rule lookup_Component_prototype [OF loaded_new(1) [OF assms]])
  then show ?thesis
    using fr
    by (simp add: lookup.simps [of _ "free s"] new_Component_loaded [OF assms] instance_obj_def
        split: option.splits)
qed

lemma lookup_PureComponent_instance:
  assumes "loaded dev s"
  shows "lookup (heap (snd (new_PureComponent p c u s))) (free s) n =
           (case map_of (instance_props p c u) n of
              Some d \<Rightarrow> Some d
            | None \<Rightarrow>
                (case map_of pureComponentPrototype_props n of
                   Some d \<Rightarrow> Some d
                 | None \<Rightarrow> map_of (Component_prototype_props dev) n))"
proof -
  have fr: "first_free \<le> free s" using assms by (simp add: loaded_def)
  have "lookup (heap (snd (new_PureComponent p c u s))) pureComponentPrototype n =
      (case map_of pureComponentPrototype_props n of
         Some d \<Rightarrow> Some d
       | None \<Rightarrow> map_of (Component_prototype_props dev) n)"
    by (rule lookup_pureComponentPrototype [OF loaded_new(2) [OF assms]])
  then show ?thesis
    using fr
    by (simp add: lookup.simps [of _ "free s"] new_PureComponent_loaded [OF assms]
        instance_obj_def split: option.splits)
qed

lemmas table_defs =
  instance_props_def Component_prototype_props_def pureComponentPrototype_props_def
  deprecatedAPIs_def

section \<open>Reading an instance\<close>

lemma get_Component_instance:
  assumes "loaded dev s"
  shows "get (free s) n (snd (new_Component p c u s)) =
           (case (case map_of (instance_props p c u) n of
                    Some d \<Rightarrow> Some d
                  | None \<Rightarrow> map_of (Component_prototype_props dev) n) of
              None \<Rightarrow> ret Undefined (snd (new_Component p c u s))
            | Some (Data v w e k) \<Rightarrow> ret v (snd (new_Component p c u s))
            | Some (Accessor info e k) \<Rightarrow> deprecation_getter info (snd (new_Component p c u s)))"
  unfolding get_def lookup_Component_instance [OF assms] ..

lemma get_PureComponent_instance:
  assumes "loaded dev s"
  shows "get (free s) n (snd (new_PureComponent p c u s)) =
           (case (case map_of (instance_props p c u) n of
                    Some d \<Rightarrow> Some d
                  | None \<Rightarrow>
                      (case map_of pureComponentPrototype_props n of
                         Some d \<Rightarrow> Some d
                       | None \<Rightarrow> map_of (Component_prototype_props dev) n)) of
              None \<Rightarrow> ret Undefined (snd (new_PureComponent p c u s))
            | Some (Data v w e k) \<Rightarrow> ret v (snd (new_PureComponent p c u s))
            | Some (Accessor info e k) \<Rightarrow>
                deprecation_getter info (snd (new_PureComponent p c u s)))"
  unfolding get_def lookup_PureComponent_instance [OF assms] ..

lemma fst_new:
  assumes "loaded dev s"
  shows "fst (new_Component p c u s) = Inr (free s)"
    and "fst (new_PureComponent p c u s) = Inr (free s)"
  by (simp_all add: new_Component_loaded [OF assms] new_PureComponent_loaded [OF assms])

lemma heap_new:
  assumes "loaded dev s"
  shows "heap (snd (new_Component p c u s)) =
           (heap s)(free s \<mapsto> instance_obj Component_prototype p c u)"
    and "heap (snd (new_PureComponent p c u s)) =
           (heap s)(free s \<mapsto> instance_obj pureComponentPrototype p c u)"
  by (simp_all add: new_Component_loaded [OF assms] new_PureComponent_loaded [OF assms])

lemma traces_new:
  assumes "loaded dev s"
  shows "calls (snd (new_Component p c u s)) = calls s"
    and "warnings (snd (new_Component p c u s)) = warnings s"
    and "calls (snd (new_PureComponent p c u s)) = calls s"
    and "warnings (snd (new_PureComponent p c u s)) = warnings s"
  by (simp_all add: new_Component_loaded [OF assms] new_PureComponent_loaded [OF assms])

lemma emptyObject_loaded:
  assumes "loaded dev s"
  shows "heap s emptyObject = Some (plain_object\<lparr>extensible := \<not> dev\<rparr>)"
  using loaded_heap [OF assms, of emptyObject] by (simp add: heap_loaded_state)

lemma valid_partialState:
  "(typeof s v = ''object'' \<or> typeof s v = ''function'' \<or> loose_eq_null v) =
     (case v of Ref a \<Rightarrow> True | Null \<Rightarrow> True | Undefined \<Rightarrow> True | _ \<Rightarrow> False)"
  by (cases v) (simp_all add: typeof_def loose_eq_null_def split: option.splits)

lemma get_total: "\<exists>x w. get a n s = (Inr x, s\<lparr>warnings := w\<rparr>)"
proof (cases "lookup (heap s) a n")
  case None
  then have "get a n s = (Inr Undefined, s\<lparr>warnings := warnings s\<rparr>)"
    by (simp add: get_def ret_def)
  then show ?thesis by blast
next
  case (Some d)
  show ?thesis
  proof (cases d)
    case (Data x w e c)
    with Some have "get a n s = (Inr x, s\<lparr>warnings := warnings s\<rparr>)"
      by (simp add: get_def ret_def)
    then show ?thesis by blast
  next
    case (Accessor info e c)
    with Some have "get a n s = (Inr Undefined, s\<lparr>warnings := warnings s @
        [(''%s(...) is deprecated in plain JavaScript React classes. %s'',
          [fst info, snd info])]\<rparr>)"
      by (simp add: get_def deprecation_getter_def seq_def bind_def lowPriorityWarning_def
          ret_def)
    then show ?thesis by blast
  qed
qed

lemma get_data:
  "lookup (heap s) a n = Some (Data x w e c) \<Longrightarrow> get a n s = (Inr x, s)"
  by (simp add: get_def ret_def)

lemma typeof_warnings: "typeof (s\<lparr>warnings := w\<rparr>) v = typeof s v"
  by (cases v) (simp_all add: typeof_def)

text \<open>What a member call can do: fail with a TypeError, or record the one call.\<close>

lemma call_method_cases:
  "(\<exists>w. call_method r m args s = (Inl TypeError, s\<lparr>warnings := w\<rparr>)) \<or>
   call_method r m args s = (Inr (), s\<lparr>calls := calls s @ [(r, m, args)]\<rparr>)"
proof -
  have nullish: "r = Undefined \<or> r = Null \<Longrightarrow>
      call_method r m args s = (Inl TypeError, s\<lparr>warnings := warnings s\<rparr>)"
    by (auto simp: call_method_def throw_def)
  have other: "r \<noteq> Undefined \<Longrightarrow> r \<noteq> Null \<Longrightarrow>
      call_method r m args s =
        bind (get (case r of Ref a \<Rightarrow> a | _ \<Rightarrow> Object_prototype) m)
          (\<lambda>f s. if typeof s f = ''function'' then updater_call r m args s
                 else throw TypeError s) s"
    by (cases r) (simp_all add: call_method_def cong: if_cong)
  show ?thesis
  proof (cases "r = Undefined \<or> r = Null")
    case True
    then show ?thesis using nullish by blast
  next
    case False
    let ?a = "case r of Ref a \<Rightarrow> a | _ \<Rightarrow> Object_prototype"
    show ?thesis
    proof (cases "lookup (heap s) ?a m")
      case None
      then have "call_method r m args s = (Inl TypeError, s\<lparr>warnings := warnings s\<rparr>)"
        using False by (simp add: other bind_def get_def ret_def throw_def typeof_def)
      then show ?thesis by blast
    next
      case (Some d)
      show ?thesis
      proof (cases d)
        case (Data x w e c)
        with Some have g: "get ?a m s = (Inr x, s)" by (simp add: get_data)
        show ?thesis
        proof (cases "typeof s x = ''function''")
          case True
          then show ?thesis
            using False g by (simp add: other bind_def updater_call_def)
        next
          case nf: False
          then have "call_method r m args s = (Inl TypeError, s\<lparr>warnings := warnings s\<rparr>)"
            using False g by (simp add: other bind_def throw_def)
          then show ?thesis by blast
        qed
      next
        case (Accessor info e c)
        with Some have "call_method r m args s =
            (Inl TypeError, s\<lparr>warnings := warnings s @
              [(''%s(...) is deprecated in plain JavaScript React classes. %s'',
                [fst info, snd info])]\<rparr>)"
          using False
          by (simp add: other bind_def get_def deprecation_getter_def seq_def
              lowPriorityWarning_def ret_def throw_def typeof_def)
        then show ?thesis by blast
      qed
    qed
  qed
qed

lemma call_method_heap: "heap (snd (call_method r m args s)) = heap s"
  using call_method_cases [of r m args s] by auto


lemma call_method_failure:
  "fst (call_method r m args s) \<noteq> Inr () \<Longrightarrow>
   fst (call_method r m args s) = Inl TypeError \<and>
   calls (snd (call_method r m args s)) = calls s"
  using call_method_cases [of r m args s] by auto


text \<open>A member call depends on the heap through lookups and \<open>typeof\<close> only.\<close>

lemma call_method_cong:
  assumes "\<And>a. lookup (heap s) a m = lookup (heap s') a m"
    and "\<And>f. typeof s f = typeof s' f"
    and "calls s = calls s'"
  shows "fst (call_method r m args s) = fst (call_method r m args s') \<and>
         calls (snd (call_method r m args s)) = calls (snd (call_method r m args s'))"
proof (cases "r = Undefined \<or> r = Null")
  case True
  then show ?thesis using assms(3) by (auto simp: call_method_def throw_def)
next
  case False
  let ?a = "case r of Ref a \<Rightarrow> a | _ \<Rightarrow> Object_prototype"
  have other: "\<And>t. call_method r m args t =
      bind (get ?a m)
        (\<lambda>f s. if typeof s f = ''function'' then updater_call r m args s
               else throw TypeError s) t"
    using False by (cases r) (simp_all add: call_method_def cong: if_cong)
  have l: "lookup (heap s) ?a m = lookup (heap s') ?a m" by (rule assms(1))
  show ?thesis
  proof (cases "lookup (heap s') ?a m")
    case None
    with l show ?thesis
      using assms(3) by (simp add: other bind_def get_def ret_def throw_def typeof_def)
  next
    case (Some d)
    show ?thesis
    proof (cases d)
      case (Data x w e c)
      with Some l have "get ?a m s = (Inr x, s)" "get ?a m s' = (Inr x, s')"
        by (simp_all add: get_data)
      then show ?thesis
        using assms(2) [of x] assms(3)
        by (simp add: other bind_def updater_call_def throw_def)
    next
      case (Accessor info e c)
      with Some l show ?thesis
        using assms(3)
        by (simp add: other bind_def get_def deprecation_getter_def seq_def
            lowPriorityWarning_def ret_def throw_def typeof_def)
    qed
  qed
qed

text \<open>\<^verbatim>\<open>setState\<close> and \<^verbatim>\<open>forceUpdate\<close> through their member call.\<close>

lemma setState_invalid:
  assumes "\<not> (case v of Ref a \<Rightarrow> True | Null \<Rightarrow> True | Undefined \<Rightarrow> True | _ \<Rightarrow> False)"
  shows "setState this v cb s =
           (Inl (InvariantViolation
                  (''setState(...): takes an object of state variables to update or a '' @
                   ''function which returns an object of state variables.'')), s)"
  using assms
  by (simp add: setState_def valid_partialState seq_def bind_def invariant_def throw_def)

lemma setState_valid:
  assumes "case v of Ref a \<Rightarrow> True | Null \<Rightarrow> True | Undefined \<Rightarrow> True | _ \<Rightarrow> False"
  shows "setState this v cb s =
           bind (get this ''updater'')
             (\<lambda>u. call_method u ''enqueueSetState'' [Ref this, v, cb, Str ''setState'']) s"
  using assms
  by (simp add: setState_def valid_partialState seq_def bind_def invariant_def ret_def)

lemma setState_bound:
  assumes "lookup (heap s) this ''updater'' = Some (Data u w e c)"
    and "case v of Ref a \<Rightarrow> True | Null \<Rightarrow> True | Undefined \<Rightarrow> True | _ \<Rightarrow> False"
  shows "setState this v cb s =
           call_method u ''enqueueSetState'' [Ref this, v, cb, Str ''setState''] s"
  by (simp add: setState_valid [OF assms(2)] bind_def get_data [OF assms(1)])

lemma forceUpdate_bound:
  assumes "lookup (heap s) this ''updater'' = Some (Data u w e c)"
  shows "forceUpdate this cb s =
           call_method u ''enqueueForceUpdate'' [Ref this, cb, Str ''forceUpdate''] s"
  by (simp add: forceUpdate_def bind_def get_data [OF assms])

lemma bind_get_call_heap:
  "heap (snd (bind (get a n) (\<lambda>u. call_method u m (args u)) s)) = heap s"
proof -
  obtain x w where g: "get a n s = (Inr x, s\<lparr>warnings := w\<rparr>)"
    using get_total [of a n s] by blast
  show ?thesis
    using call_method_heap [of x m "args x" "s\<lparr>warnings := w\<rparr>"]
    by (simp add: bind_def g)
qed

lemma heap_setState: "heap (snd (setState a v cb s)) = heap s"
proof (cases "case v of Ref a \<Rightarrow> True | Null \<Rightarrow> True | Undefined \<Rightarrow> True | _ \<Rightarrow> False")
  case True
  show ?thesis
    unfolding setState_valid [OF True]
    by (rule bind_get_call_heap [where args = "\<lambda>u. [Ref a, v, cb, Str ''setState'']"])
next
  case False
  then show ?thesis by (simp add: setState_invalid)
qed

lemma heap_forceUpdate: "heap (snd (forceUpdate a cb s)) = heap s"
  unfolding forceUpdate_def
  by (rule bind_get_call_heap [where args = "\<lambda>u. [Ref a, cb, Str ''forceUpdate'']"])

lemma setState_error:
  assumes "fst (setState this v cb s) = Inl err"
  shows "calls (snd (setState this v cb s)) = calls s"
proof (cases "case v of Ref a \<Rightarrow> True | Null \<Rightarrow> True | Undefined \<Rightarrow> True | _ \<Rightarrow> False")
  case True
  obtain x w where g: "get this ''updater'' s = (Inr x, s\<lparr>warnings := w\<rparr>)"
    using get_total [of this "''updater''" s] by blast
  have eq: "setState this v cb s =
      call_method x ''enqueueSetState'' [Ref this, v, cb, Str ''setState''] (s\<lparr>warnings := w\<rparr>)"
    by (simp add: setState_valid [OF True] bind_def g)
  have "fst (call_method x ''enqueueSetState'' [Ref this, v, cb, Str ''setState'']
      (s\<lparr>warnings := w\<rparr>)) \<noteq> Inr ()"
    using assms by (simp add: eq)
  from call_method_failure [OF this] show ?thesis by (simp add: eq)
next
  case False
  then show ?thesis by (simp add: setState_invalid)
qed

lemma setState_no_violation:
  assumes "case v of Ref a \<Rightarrow> True | Null \<Rightarrow> True | Undefined \<Rightarrow> True | _ \<Rightarrow> False"
  shows "fst (setState this v cb s) \<noteq> Inl (InvariantViolation msg)"
proof -
  obtain x w where g: "get this ''updater'' s = (Inr x, s\<lparr>warnings := w\<rparr>)"
    using get_total [of this "''updater''" s] by blast
  have eq: "setState this v cb s =
      call_method x ''enqueueSetState'' [Ref this, v, cb, Str ''setState''] (s\<lparr>warnings := w\<rparr>)"
    by (simp add: setState_valid [OF assms] bind_def g)
  show ?thesis
    using call_method_cases [of x "''enqueueSetState''" "[Ref this, v, cb, Str ''setState'']"
        "s\<lparr>warnings := w\<rparr>"]
    by (auto simp: eq)
qed

lemma heap_get: "heap (snd (get a n s)) = heap s"
  by (auto simp: seq_def bind_def ret_def get_def deprecation_getter_def lowPriorityWarning_def
      split: option.splits pdesc.splits)

lemma deprecated_tables:
  assumes "(n, info) \<in> set deprecatedAPIs"
  shows "map_of (instance_props p c u) n = None"
    and "map_of pureComponentPrototype_props n = None"
    and "map_of (Component_prototype_props dev) n =
           (if dev then Some (Accessor info False False) else None)"
  using assms by (auto simp: table_defs)

lemma deprecation_getter_eq:
  "deprecation_getter info s =
     (Inr Undefined,
      s\<lparr>warnings := warnings s @
           [(''%s(...) is deprecated in plain JavaScript React classes. %s'',
             [fst info, snd info])]\<rparr>)"
  by (simp add: deprecation_getter_def seq_def bind_def lowPriorityWarning_def ret_def)

lemma heap_loaded_methods:
  "heap (loaded_state dev) setState_fn = Some (function_object setState_code setState_prototype0)"
  "heap (loaded_state dev) forceUpdate_fn =
     Some (function_object forceUpdate_code forceUpdate_prototype0)"
  by (simp_all add: loaded_state_def ReactBaseClasses_realm)

lemma own_prop_instance:
  assumes "loaded dev s"
  shows "own_prop (snd (new_Component p c u s)) (free s) f = map_of (instance_props p c u) f"
    and "own_prop (snd (new_PureComponent p c u s)) (free s) f = map_of (instance_props p c u) f"
  by (simp_all add: own_prop_def heap_new [OF assms] instance_obj_def)

lemma own_prop_prototypes:
  assumes "loaded dev s"
  shows "own_prop s Component_prototype f = map_of (Component_prototype_props dev) f"
    and "own_prop s pureComponentPrototype f = map_of pureComponentPrototype_props f"
  using loaded_heap [OF assms, of Component_prototype]
    loaded_heap [OF assms, of pureComponentPrototype]
  by (simp_all add: own_prop_def heap_loaded_state plain_object_def)

lemma inherited_same:
  assumes "n \<noteq> ''isPureReactComponent''" and "n \<noteq> ''constructor''"
  shows "(case map_of pureComponentPrototype_props n of
            Some d \<Rightarrow> Some d
          | None \<Rightarrow> map_of (Component_prototype_props dev) n) =
         map_of (Component_prototype_props dev) n"
  using assms by (simp add: table_defs)

section \<open>Evaluating the facade\<close>

lemma put_new:
  assumes "heap s a = Some ob" and "map_of (props ob) n = None"
    and "inherited s a n = None" and "extensible ob"
  shows "put a n v s =
           (Inr (), s\<lparr>heap := (heap s)(a \<mapsto> ob\<lparr>props := props ob @ [(n, Data v True True True)]\<rparr>)\<rparr>)"
  using assms by (simp add: put_def set_own_def update_absent)

lemma put_own:
  assumes "heap s a = Some ob" and "map_of (props ob) n = Some (Data v' True e c)"
  shows "put a n v s =
           (Inr (), s\<lparr>heap := (heap s)(a \<mapsto> ob\<lparr>props := AList.update n (Data v True e c) (props ob)\<rparr>)\<rparr>)"
  using assms by (simp add: put_def set_own_def)

lemma React_literal_facts:
  "proto (React_literal dev imp ch) = Some Object_prototype"
  "extensible (React_literal dev imp ch)"
  "map_of (props (React_literal dev imp ch)) ''ConcurrentMode'' = None"
  "map_of (props (React_literal dev imp ch)) ''unstable_ConcurrentMode'' =
     Some (Data (imp ''REACT_CONCURRENT_MODE_TYPE'') True True True)"
  by (simp_all add: React_literal_def object_literal_def plain_object_def)

lemma React_loaded:
  assumes "loaded dev s"
  shows "React dev flag imp s =
           (Inr (Suc (free s)),
            s\<lparr>heap := (heap s)
                 (free s \<mapsto> React_Children imp,
                  Suc (free s) \<mapsto>
                    (if flag then React_flagged dev imp (free s)
                     else React_literal dev imp (free s))),
              free := Suc (Suc (free s))\<rparr>)"
proof (cases flag)
  case False
  then show ?thesis
    by (simp add: React_def bind_def seq_def ret_def alloc_def)
next
  case True
  let ?R = "Suc (free s)"
  let ?L = "React_literal dev imp (free s)"
  let ?s2 = "s\<lparr>heap := (heap s)(free s \<mapsto> React_Children imp, ?R \<mapsto> ?L),
               free := Suc ?R\<rparr>"
  let ?L1 = "?L\<lparr>props := props ?L @
      [(''ConcurrentMode'', Data (imp ''REACT_CONCURRENT_MODE_TYPE'') True True True)]\<rparr>"
  let ?s3 = "?s2\<lparr>heap := (heap ?s2)(?R \<mapsto> ?L1)\<rparr>"
  have fr: "first_free \<le> free s" using assms by (simp add: loaded_def)
  have l2: "loaded dev ?s2"
    using assms fr unfolding loaded_def by (auto simp del: upt_rec_numeral)
  have inh: "inherited ?s2 ?R ''ConcurrentMode'' = None"
    using lookup_Object_prototype [OF l2, of "''ConcurrentMode''"]
    by (simp add: inherited_def React_literal_facts)
  have p1: "put ?R ''ConcurrentMode'' (imp ''REACT_CONCURRENT_MODE_TYPE'') ?s2 = (Inr (), ?s3)"
    by (rule put_new [OF _ React_literal_facts(3) inh React_literal_facts(2)]) simp
  have m: "map_of (props ?L1) ''unstable_ConcurrentMode'' =
      Some (Data (imp ''REACT_CONCURRENT_MODE_TYPE'') True True True)"
    by (simp add: React_literal_facts map_add_def)
  have p2: "put ?R ''unstable_ConcurrentMode'' Undefined ?s3 =
      (Inr (), ?s3\<lparr>heap := (heap ?s3)(?R \<mapsto>
         ?L1\<lparr>props := AList.update ''unstable_ConcurrentMode'' (Data Undefined True True True)
                          (props ?L1)\<rparr>)\<rparr>)"
    by (rule put_own [OF _ m]) simp
  have a1: "alloc (React_Children imp) s =
      (Inr (free s), s\<lparr>heap := (heap s)(free s \<mapsto> React_Children imp), free := ?R\<rparr>)"
    by (simp add: alloc_def)
  have a2: "alloc ?L (s\<lparr>heap := (heap s)(free s \<mapsto> React_Children imp), free := ?R\<rparr>) =
      (Inr ?R, ?s2)"
    by (simp add: alloc_def)
  have "React dev True imp s =
      (Inr ?R, ?s3\<lparr>heap := (heap ?s3)(?R \<mapsto>
         ?L1\<lparr>props := AList.update ''unstable_ConcurrentMode'' (Data Undefined True True True)
                          (props ?L1)\<rparr>)\<rparr>)"
    unfolding React_def seq_def bind_def ret_def
    by (simp only: a1 a2 p1 p2 prod.case sum.case if_True)
  then show ?thesis
    using True by (simp add: React_flagged_def)
qed

lemma own_prop_React:
  assumes "loaded dev s"
  shows "own_prop (snd (React dev flag imp s)) (Suc (free s)) n =
           map_of (props (if flag then React_flagged dev imp (free s)
                          else React_literal dev imp (free s))) n"
  by (simp add: React_loaded [OF assms] own_prop_def)

lemma loaded_React:
  assumes "loaded dev s"
  shows "loaded dev (snd (React dev flag imp s))"
  using assms unfolding React_loaded [OF assms] loaded_def
  by (auto simp del: upt_rec_numeral)

lemma lookup_child:
  assumes "h a = Some ob" and "proto ob = Some b" and "b < a" and "lookup h b n = None"
  shows "lookup h a n = map_of (props ob) n"
  using assms by (subst lookup.simps) (simp split: option.splits)

lemma lookup_React:
  assumes "loaded dev s"
  shows "lookup (heap (snd (React dev flag imp s))) (Suc (free s)) n =
           own_prop (snd (React dev flag imp s)) (Suc (free s)) n"
proof -
  obtain X where X: "X = (if flag then React_flagged dev imp (free s)
      else React_literal dev imp (free s))" by simp
  have z: "lookup (heap (snd (React dev flag imp s))) Object_prototype n = None"
    by (rule lookup_Object_prototype [OF loaded_React [OF assms]])
  have h: "heap (snd (React dev flag imp s)) (Suc (free s)) = Some X"
    by (simp add: React_loaded [OF assms] X)
  have p: "proto X = Some Object_prototype"
    by (simp add: X React_flagged_def React_literal_facts)
  have "lookup (heap (snd (React dev flag imp s))) (Suc (free s)) n = map_of (props X) n"
    by (rule lookup_child [OF h p _ z]) simp
  then show ?thesis by (simp add: own_prop_def h)
qed

lemma React_flagged_props:
  "map_of (props (React_flagged dev imp ch)) n =
     (if n = ''unstable_ConcurrentMode'' then Some (Data Undefined True True True)
      else if n = ''ConcurrentMode''
        then Some (Data (imp ''REACT_CONCURRENT_MODE_TYPE'') True True True)
        else map_of (props (React_literal dev imp ch)) n)"
  by (simp add: React_flagged_def update_conv map_add_def React_literal_facts
      split: option.splits)

section \<open>Sample states\<close>


lemma loaded_renderer_state: "loaded True renderer_state"
  unfolding renderer_state_def alloc_def snd_conv
  by (rule loaded_alloc [OF loaded_loaded_state]) (simp_all add: free_loaded_state)

lemma free_renderer_state: "free renderer_state = Suc first_free"
  by (simp add: renderer_state_def alloc_def free_loaded_state)




text \<open>A lookup on two heaps that differ at one address, where the lookup agrees.\<close>

lemma lookup_agree_except:
  assumes "\<And>b. b \<noteq> x \<Longrightarrow> h b = h' b" and "lookup h x n = lookup h' x n"
  shows "lookup h a n = lookup h' a n"
  using assms
proof (induction h a n rule: lookup.induct)
  case (1 h a n)
  show ?case
  proof (cases "a = x")
    case True
    then show ?thesis using "1.prems"(2) by simp
  next
    case False
    then have here: "h a = h' a" using "1.prems"(1) by simp
    show ?thesis
    proof (cases "h a")
      case None
      with here show ?thesis by (simp add: lookup.simps [of _ a])
    next
      case (Some ob)
      show ?thesis
      proof (cases "map_of (props ob) n")
        case (Some p)
        with \<open>h a = Some ob\<close> here show ?thesis by (simp add: lookup.simps [of _ a])
      next
        case None
        show ?thesis
        proof (cases "proto ob")
          case None
          with \<open>h a = Some ob\<close> \<open>map_of (props ob) n = None\<close> here show ?thesis
            by (simp add: lookup.simps [of _ a])
        next
          case (Some b)
          show ?thesis
          proof (cases "b < a")
            case True
            have "lookup h b n = lookup h' b n"
              by (rule "1.IH" [OF \<open>h a = Some ob\<close> \<open>map_of (props ob) n = None\<close> Some True
                    "1.prems"])
            with \<open>h a = Some ob\<close> \<open>map_of (props ob) n = None\<close> Some True here show ?thesis
              by (simp add: lookup.simps [of _ a])
          next
            case False
            with \<open>h a = Some ob\<close> \<open>map_of (props ob) n = None\<close> Some here show ?thesis
              by (simp add: lookup.simps [of _ a])
          qed
        qed
      qed
    qed
  qed
qed

section \<open>The claims\<close>







text \<open>
  C3, as stated, at a production build. The claim says that after construction
  \<^verbatim>\<open>refs\<close> is the shared placeholder and that the placeholder is frozen. In a
  production build \<^verbatim>\<open>new Component()\<close> does give \<^verbatim>\<open>refs\<close> the placeholder, but the
  placeholder is an ordinary extensible object: line 15 freezes it under \<^verbatim>\<open>__DEV__\<close> only.
\<close>

theorem refs_placeholder_not_frozen_in_production:
  "fst (get first_free ''refs''
          (snd (new_Component Undefined Undefined Undefined (loaded_state False)))) =
     Inr (Ref emptyObject) \<and>
   \<not> Object_isFrozen (snd (new_Component Undefined Undefined Undefined (loaded_state False)))
        emptyObject"
proof -
  have l: "loaded False (loaded_state False)" by (rule loaded_loaded_state)
  have "heap (snd (new_Component Undefined Undefined Undefined (loaded_state False))) emptyObject =
      Some (plain_object\<lparr>extensible := True\<rparr>)"
    using emptyObject_loaded [OF l] by (simp add: heap_new [OF l] free_loaded_state)
  then have "\<not> Object_isFrozen
      (snd (new_Component Undefined Undefined Undefined (loaded_state False))) emptyObject"
    by (simp add: Object_isFrozen_def plain_object_def)
  moreover have "fst (get first_free ''refs''
      (snd (new_Component Undefined Undefined Undefined (loaded_state False)))) =
      Inr (Ref emptyObject)"
    using get_Component_instance [OF l, where n = "''refs''" and p = Undefined and c = Undefined
        and u = Undefined]
    by (simp add: free_loaded_state table_defs ret_def)
  ultimately show ?thesis by simp
qed

text \<open>
  C3, amended. In a state where the module is loaded, right after \<^verbatim>\<open>new Component\<close> or
  \<^verbatim>\<open>new PureComponent\<close> the \<^verbatim>\<open>refs\<close> of the instance is the one shared placeholder;
  the placeholder is frozen exactly in a development build; and neither the two
  constructors nor \<^verbatim>\<open>setState\<close>, \<^verbatim>\<open>forceUpdate\<close> or a property read changes the
  placeholder.
\<close>

theorem refs_placeholder:
  assumes "loaded dev s"
  shows "get (free s) ''refs'' (snd (new_Component p c u s)) =
           (Inr (Ref emptyObject), snd (new_Component p c u s)) \<and>
         get (free s) ''refs'' (snd (new_PureComponent p c u s)) =
           (Inr (Ref emptyObject), snd (new_PureComponent p c u s)) \<and>
         Object_isFrozen (snd (new_Component p c u s)) emptyObject = dev \<and>
         Object_isFrozen (snd (new_PureComponent p c u s)) emptyObject = dev \<and>
         heap (snd (new_Component p c u s)) emptyObject = heap s emptyObject \<and>
         heap (snd (new_PureComponent p c u s)) emptyObject = heap s emptyObject \<and>
         heap (snd (setState a v cb s)) emptyObject = heap s emptyObject \<and>
         heap (snd (forceUpdate a cb s)) emptyObject = heap s emptyObject \<and>
         heap (snd (get a n s)) emptyObject = heap s emptyObject"
proof -
  have fr: "first_free \<le> free s" using assms by (simp add: loaded_def)
  have r1: "get (free s) ''refs'' (snd (new_Component p c u s)) =
      (Inr (Ref emptyObject), snd (new_Component p c u s))"
    by (simp add: get_Component_instance [OF assms] table_defs ret_def)
  have r2: "get (free s) ''refs'' (snd (new_PureComponent p c u s)) =
      (Inr (Ref emptyObject), snd (new_PureComponent p c u s))"
    by (simp add: get_PureComponent_instance [OF assms] table_defs ret_def)
  have h1: "heap (snd (new_Component p c u s)) emptyObject = heap s emptyObject"
    using fr by (simp add: heap_new [OF assms])
  have h2: "heap (snd (new_PureComponent p c u s)) emptyObject = heap s emptyObject"
    using fr by (simp add: heap_new [OF assms])
  have f1: "Object_isFrozen (snd (new_Component p c u s)) emptyObject = dev"
    by (simp add: Object_isFrozen_def h1 emptyObject_loaded [OF assms] plain_object_def)
  have f2: "Object_isFrozen (snd (new_PureComponent p c u s)) emptyObject = dev"
    by (simp add: Object_isFrozen_def h2 emptyObject_loaded [OF assms] plain_object_def)
  show ?thesis
    by (simp only: r1 r2 h1 h2 f1 f2 heap_setState heap_forceUpdate heap_get simp_thms)
qed

theorem refs_placeholder_witness:
  "loaded True (loaded_state True) \<and>
   get first_free ''refs'' sample = (Inr (Ref emptyObject), sample) \<and>
   get first_free ''refs'' pure_sample = (Inr (Ref emptyObject), pure_sample) \<and>
   Object_isFrozen sample emptyObject \<and>
   Object_isFrozen pure_sample emptyObject \<and>
   heap sample emptyObject = heap (loaded_state True) emptyObject \<and>
   heap (snd (setState first_free Null Undefined (loaded_state True))) emptyObject =
     heap (loaded_state True) emptyObject"
  using refs_placeholder [OF loaded_loaded_state [of True], where p = "Str ''props''"
      and c = Null and u = Undefined and a = first_free and v = Null and cb = Undefined
      and n = "''refs''"]
    loaded_loaded_state [of True]
  by (simp add: sample_def pure_sample_def free_loaded_state)

text \<open>
  C4, as stated, at the updater argument \<^verbatim>\<open>0\<close>. The claim says that a supplied updater
  is the one bound. \<^verbatim>\<open>new Component(undefined, undefined, 0)\<close> binds the no-op
  placeholder, not the argument: line 32 is \<^verbatim>\<open>updater || ReactNoopUpdateQueue\<close>.
\<close>

theorem falsy_updater_replaced:
  "fst (get first_free ''updater''
          (snd (new_Component Undefined Undefined (Number 0) (loaded_state True)))) =
     Inr (Ref ReactNoopUpdateQueue) \<and>
   fst (get first_free ''updater''
          (snd (new_Component Undefined Undefined (Number 0) (loaded_state True)))) \<noteq>
     Inr (Number 0)"
  using get_Component_instance [OF loaded_loaded_state [of True], where n = "''updater''"
      and p = Undefined and c = Undefined and u = "Number 0"]
  by (simp add: free_loaded_state table_defs ret_def or_else_def ToBoolean_def)

text \<open>
  C4, amended. In a state where the module is loaded, \<^verbatim>\<open>new Component(p, c, u)\<close> ends
  normally with a fresh instance whose \<^verbatim>\<open>props\<close> is \<open>p\<close>, whose \<^verbatim>\<open>context\<close> is \<open>c\<close>
  and whose \<^verbatim>\<open>updater\<close> is \<open>u\<close> when \<open>u\<close> is truthy (every object is) and the no-op
  placeholder \<^verbatim>\<open>ReactNoopUpdateQueue\<close> when \<open>u\<close> is undefined or any other falsy value.
\<close>

theorem Component_stores_arguments:
  assumes "loaded dev s"
  shows "fst (new_Component p c u s) = Inr (free s) \<and>
         get (free s) ''props'' (snd (new_Component p c u s)) =
           (Inr p, snd (new_Component p c u s)) \<and>
         get (free s) ''context'' (snd (new_Component p c u s)) =
           (Inr c, snd (new_Component p c u s)) \<and>
         get (free s) ''updater'' (snd (new_Component p c u s)) =
           (Inr (if ToBoolean u then u else Ref ReactNoopUpdateQueue),
            snd (new_Component p c u s))"
  by (simp add: fst_new [OF assms] get_Component_instance [OF assms] table_defs ret_def
      or_else_def)

theorem Component_stores_arguments_witness:
  "loaded True renderer_state \<and>
   fst (new_Component (Str ''props'') Null (Ref first_free) renderer_state) =
     Inr (Suc first_free) \<and>
   fst (get (Suc first_free) ''props''
          (snd (new_Component (Str ''props'') Null (Ref first_free) renderer_state))) =
     Inr (Str ''props'') \<and>
   fst (get (Suc first_free) ''context''
          (snd (new_Component (Str ''props'') Null (Ref first_free) renderer_state))) =
     Inr Null \<and>
   fst (get (Suc first_free) ''updater''
          (snd (new_Component (Str ''props'') Null (Ref first_free) renderer_state))) =
     Inr (Ref first_free)"
  using Component_stores_arguments [OF loaded_renderer_state, where p = "Str ''props''"
      and c = Null and u = "Ref first_free"]
    loaded_renderer_state
  by (simp add: free_renderer_state ToBoolean_def)

text \<open>
  C5. In a state where the module is loaded, \<^verbatim>\<open>new PureComponent(p, c, u)\<close> and
  \<^verbatim>\<open>new Component(p, c, u)\<close> give instances with the same own properties (\<^verbatim>\<open>props\<close>,
  \<^verbatim>\<open>context\<close>, \<^verbatim>\<open>refs\<close>, \<^verbatim>\<open>updater\<close>). \<^verbatim>\<open>setState\<close> and \<^verbatim>\<open>forceUpdate\<close> are own
  properties of the PureComponent prototype, equal to those of the Component prototype:
  the function objects that hold the code of Component's two methods. Every property a
  PureComponent instance answers is the one a Component instance answers, but for the
  marker \<^verbatim>\<open>isPureReactComponent\<close> (true on the one, absent on the other) and for
  \<^verbatim>\<open>constructor\<close>, which names the class; and \<^verbatim>\<open>setState\<close> and \<^verbatim>\<open>forceUpdate\<close> end
  the same way and make the same calls on both.
\<close>

theorem PureComponent_like_Component:
  assumes "loaded dev s"
  shows "(\<forall>f. own_prop (snd (new_PureComponent p c u s)) (free s) f =
              own_prop (snd (new_Component p c u s)) (free s) f) \<and>
         (\<forall>m. m = ''setState'' \<or> m = ''forceUpdate'' \<longrightarrow>
              lookup (heap (snd (new_PureComponent p c u s))) (free s) m =
                lookup (heap (snd (new_Component p c u s))) (free s) m \<and>
              own_prop (snd (new_PureComponent p c u s)) pureComponentPrototype m =
                own_prop (snd (new_PureComponent p c u s)) Component_prototype m \<and>
              own_prop (snd (new_PureComponent p c u s)) pureComponentPrototype m =
                Some (Data (Ref (if m = ''setState'' then setState_fn else forceUpdate_fn))
                        True True True)) \<and>
         heap (snd (new_PureComponent p c u s)) setState_fn =
           Some (function_object setState_code setState_prototype0) \<and>
         heap (snd (new_PureComponent p c u s)) forceUpdate_fn =
           Some (function_object forceUpdate_code forceUpdate_prototype0) \<and>
         (\<forall>n. n \<noteq> ''isPureReactComponent'' \<and> n \<noteq> ''constructor'' \<longrightarrow>
              lookup (heap (snd (new_PureComponent p c u s))) (free s) n =
              lookup (heap (snd (new_Component p c u s))) (free s) n) \<and>
         lookup (heap (snd (new_PureComponent p c u s))) (free s) ''isPureReactComponent'' =
           Some (Data (Boolean True) True True True) \<and>
         lookup (heap (snd (new_Component p c u s))) (free s) ''isPureReactComponent'' = None \<and>
         lookup (heap (snd (new_PureComponent p c u s))) (free s) ''constructor'' =
           Some (Data (Ref PureComponent_fn) True True True) \<and>
         lookup (heap (snd (new_Component p c u s))) (free s) ''constructor'' =
           Some (Data (Ref Component_fn) True False True) \<and>
         fst (setState (free s) v cb (snd (new_PureComponent p c u s))) =
           fst (setState (free s) v cb (snd (new_Component p c u s))) \<and>
         calls (snd (setState (free s) v cb (snd (new_PureComponent p c u s)))) =
           calls (snd (setState (free s) v cb (snd (new_Component p c u s)))) \<and>
         fst (forceUpdate (free s) cb (snd (new_PureComponent p c u s))) =
           fst (forceUpdate (free s) cb (snd (new_Component p c u s))) \<and>
         calls (snd (forceUpdate (free s) cb (snd (new_PureComponent p c u s)))) =
           calls (snd (forceUpdate (free s) cb (snd (new_Component p c u s))))"
proof -
  let ?P = "snd (new_PureComponent p c u s)"
  let ?C = "snd (new_Component p c u s)"
  have fr: "first_free \<le> free s" using assms by (simp add: loaded_def)
  have lP: "loaded dev ?P" and lC: "loaded dev ?C"
    by (rule loaded_new [OF assms])+
  have fields: "\<forall>f. own_prop ?P (free s) f = own_prop ?C (free s) f"
    by (simp add: own_prop_instance [OF assms])
  have methods: "\<forall>m. m = ''setState'' \<or> m = ''forceUpdate'' \<longrightarrow>
      lookup (heap ?P) (free s) m = lookup (heap ?C) (free s) m \<and>
      own_prop ?P pureComponentPrototype m = own_prop ?P Component_prototype m \<and>
      own_prop ?P pureComponentPrototype m =
        Some (Data (Ref (if m = ''setState'' then setState_fn else forceUpdate_fn))
                True True True)"
    by (auto simp: lookup_Component_instance [OF assms] lookup_PureComponent_instance [OF assms]
        own_prop_prototypes [OF lP] table_defs)
  have code: "heap ?P setState_fn = Some (function_object setState_code setState_prototype0)"
      "heap ?P forceUpdate_fn = Some (function_object forceUpdate_code forceUpdate_prototype0)"
    using loaded_heap [OF lP, of setState_fn] loaded_heap [OF lP, of forceUpdate_fn]
    by (simp_all add: heap_loaded_methods)
  have rest: "\<forall>n. n \<noteq> ''isPureReactComponent'' \<and> n \<noteq> ''constructor'' \<longrightarrow>
      lookup (heap ?P) (free s) n = lookup (heap ?C) (free s) n"
    by (simp add: lookup_Component_instance [OF assms] lookup_PureComponent_instance [OF assms]
        inherited_same cong: option.case_cong)
  have flag: "lookup (heap ?P) (free s) ''isPureReactComponent'' =
        Some (Data (Boolean True) True True True)"
      "lookup (heap ?C) (free s) ''isPureReactComponent'' = None"
      "lookup (heap ?P) (free s) ''constructor'' =
        Some (Data (Ref PureComponent_fn) True True True)"
      "lookup (heap ?C) (free s) ''constructor'' = Some (Data (Ref Component_fn) True False True)"
    by (simp_all add: lookup_Component_instance [OF assms]
        lookup_PureComponent_instance [OF assms] table_defs)
  have uP: "lookup (heap ?P) (free s) ''updater'' =
      Some (Data (or_else u (Ref ReactNoopUpdateQueue)) True True True)"
    by (simp add: lookup_PureComponent_instance [OF assms] instance_props_def)
  have uC: "lookup (heap ?C) (free s) ''updater'' =
      Some (Data (or_else u (Ref ReactNoopUpdateQueue)) True True True)"
    by (simp add: lookup_Component_instance [OF assms] instance_props_def)
  have differ: "\<And>b. b \<noteq> free s \<Longrightarrow> heap ?P b = heap ?C b"
    by (simp add: heap_new [OF assms])
  have look: "lookup (heap ?P) a m = lookup (heap ?C) a m"
    if "m \<noteq> ''isPureReactComponent''" and "m \<noteq> ''constructor''" for a m
  proof (rule lookup_agree_except [where x = "free s"])
    show "\<And>b. b \<noteq> free s \<Longrightarrow> heap ?P b = heap ?C b" by (rule differ)
    show "lookup (heap ?P) (free s) m = lookup (heap ?C) (free s) m"
      using rest [THEN spec, of m] that by simp
  qed
  have ty: "typeof ?P f = typeof ?C f" for f
    by (cases f) (simp_all add: typeof_def heap_new [OF assms] instance_obj_def)
  have cs: "calls ?P = calls ?C" by (simp add: traces_new [OF assms])
  have b1b2: "fst (setState (free s) v cb ?P) = fst (setState (free s) v cb ?C) \<and>
      calls (snd (setState (free s) v cb ?P)) = calls (snd (setState (free s) v cb ?C))"
  proof (cases "case v of Ref a \<Rightarrow> True | Null \<Rightarrow> True | Undefined \<Rightarrow> True | _ \<Rightarrow> False")
    case True
    show ?thesis
      unfolding setState_bound [OF uP True] setState_bound [OF uC True]
      by (rule call_method_cong [OF look ty cs]) simp_all
  next
    case False
    then show ?thesis by (simp add: setState_invalid cs)
  qed
  then have b1: "fst (setState (free s) v cb ?P) = fst (setState (free s) v cb ?C)"
    and b2: "calls (snd (setState (free s) v cb ?P)) =
      calls (snd (setState (free s) v cb ?C))"
    by simp_all
  have b3': "fst (forceUpdate (free s) cb ?P) = fst (forceUpdate (free s) cb ?C) \<and>
      calls (snd (forceUpdate (free s) cb ?P)) = calls (snd (forceUpdate (free s) cb ?C))"
    unfolding forceUpdate_bound [OF uP] forceUpdate_bound [OF uC]
    by (rule call_method_cong [OF look ty cs]) simp_all
  then have b3: "fst (forceUpdate (free s) cb ?P) = fst (forceUpdate (free s) cb ?C)"
      "calls (snd (forceUpdate (free s) cb ?P)) = calls (snd (forceUpdate (free s) cb ?C))"
    by simp_all
  from fields methods code rest flag b1 b2 b3 show ?thesis by blast
qed

theorem PureComponent_like_Component_witness:
  "loaded True (loaded_state True) \<and>
   own_prop pure_sample first_free ''updater'' = own_prop sample first_free ''updater'' \<and>
   lookup (heap pure_sample) first_free ''setState'' =
     lookup (heap sample) first_free ''setState'' \<and>
   own_prop pure_sample pureComponentPrototype ''setState'' =
     Some (Data (Ref setState_fn) True True True) \<and>
   lookup (heap pure_sample) first_free ''isMounted'' =
     lookup (heap sample) first_free ''isMounted'' \<and>
   lookup (heap pure_sample) first_free ''isPureReactComponent'' =
     Some (Data (Boolean True) True True True) \<and>
   lookup (heap sample) first_free ''isPureReactComponent'' = None \<and>
   calls (snd (setState first_free Null Undefined pure_sample)) =
     calls (snd (setState first_free Null Undefined sample))"
proof -
  note T = PureComponent_like_Component [OF loaded_loaded_state [of True],
      where p = "Str ''props''" and c = Null and u = Undefined and v = Null and cb = Undefined,
      unfolded free_loaded_state, folded sample_def pure_sample_def]
  note fields = T [THEN conjunct1, THEN spec, of "''updater''"]
  note T2 = T [THEN conjunct2]
  have ss: "''setState'' = ''setState'' \<or> ''setState'' = ''forceUpdate''" by simp
  note M = T2 [THEN conjunct1, THEN spec, of "''setState''", THEN mp, OF ss]
  have methods: "lookup (heap pure_sample) first_free ''setState'' =
        lookup (heap sample) first_free ''setState''"
      "own_prop pure_sample pureComponentPrototype ''setState'' =
        Some (Data (Ref setState_fn) True True True)"
    using M [THEN conjunct1] M [THEN conjunct2, THEN conjunct2] by simp_all
  note T5 = T2 [THEN conjunct2, THEN conjunct2, THEN conjunct2]
  have rest: "lookup (heap pure_sample) first_free ''isMounted'' =
      lookup (heap sample) first_free ''isMounted''"
    using T5 [THEN conjunct1, THEN spec, of "''isMounted''"] by simp
  note T6 = T5 [THEN conjunct2]
  have flag: "lookup (heap pure_sample) first_free ''isPureReactComponent'' =
        Some (Data (Boolean True) True True True)"
      "lookup (heap sample) first_free ''isPureReactComponent'' = None"
      "calls (snd (setState first_free Null Undefined pure_sample)) =
        calls (snd (setState first_free Null Undefined sample))"
    using T6 by simp_all
  show ?thesis
    using fields methods rest flag loaded_loaded_state [of True] by simp
qed

text \<open>
  C6. In a state where the module is loaded, reading \<^verbatim>\<open>isPureReactComponent\<close> on a
  fresh PureComponent instance gives true; on a fresh Component instance the property is
  found nowhere along the prototype chain, and reading it gives undefined.
\<close>

theorem isPureReactComponent_flag:
  assumes "loaded dev s"
  shows "get (free s) ''isPureReactComponent'' (snd (new_PureComponent p c u s)) =
           (Inr (Boolean True), snd (new_PureComponent p c u s)) \<and>
         get (free s) ''isPureReactComponent'' (snd (new_Component p c u s)) =
           (Inr Undefined, snd (new_Component p c u s)) \<and>
         lookup (heap (snd (new_Component p c u s))) (free s) ''isPureReactComponent'' = None"
  by (simp add: get_Component_instance [OF assms] get_PureComponent_instance [OF assms]
      lookup_Component_instance [OF assms] table_defs ret_def)

theorem isPureReactComponent_flag_witness:
  "loaded True (loaded_state True) \<and>
   get first_free ''isPureReactComponent'' pure_sample = (Inr (Boolean True), pure_sample) \<and>
   get first_free ''isPureReactComponent'' sample = (Inr Undefined, sample) \<and>
   lookup (heap sample) first_free ''isPureReactComponent'' = None"
  using isPureReactComponent_flag [OF loaded_loaded_state [of True],
      where p = "Str ''props''" and c = Null and u = Undefined]
    loaded_loaded_state [of True]
  by (simp add: sample_def pure_sample_def free_loaded_state)

text \<open>
  C7. Run in a state where the base classes are loaded, the facade ends normally with
  the namespace object. With \<^verbatim>\<open>enableStableConcurrentModeAPIs\<close> true,
  \<^verbatim>\<open>React.ConcurrentMode\<close> is the marker \<^verbatim>\<open>REACT_CONCURRENT_MODE_TYPE\<close> and
  \<^verbatim>\<open>React.unstable_ConcurrentMode\<close> is a property with the value undefined. With the
  flag false, \<^verbatim>\<open>React.unstable_ConcurrentMode\<close> is the marker, \<^verbatim>\<open>ConcurrentMode\<close> is
  not a property of the object, and the object is the literal as constructed. The flag
  changes nothing else: every other property of the namespace object and every other
  object of the heap are the same for both values of the flag.
\<close>

theorem ConcurrentMode_gate:
  assumes "loaded dev s"
  shows "fst (React dev flag imp s) = Inr (Suc (free s)) \<and>
         (if flag
          then get (Suc (free s)) ''ConcurrentMode'' (snd (React dev flag imp s)) =
                 (Inr (imp ''REACT_CONCURRENT_MODE_TYPE''), snd (React dev flag imp s)) \<and>
               get (Suc (free s)) ''unstable_ConcurrentMode'' (snd (React dev flag imp s)) =
                 (Inr Undefined, snd (React dev flag imp s)) \<and>
               own_prop (snd (React dev flag imp s)) (Suc (free s)) ''unstable_ConcurrentMode'' =
                 Some (Data Undefined True True True)
          else get (Suc (free s)) ''unstable_ConcurrentMode'' (snd (React dev flag imp s)) =
                 (Inr (imp ''REACT_CONCURRENT_MODE_TYPE''), snd (React dev flag imp s)) \<and>
               own_prop (snd (React dev flag imp s)) (Suc (free s)) ''ConcurrentMode'' = None \<and>
               get (Suc (free s)) ''ConcurrentMode'' (snd (React dev flag imp s)) =
                 (Inr Undefined, snd (React dev flag imp s)) \<and>
               heap (snd (React dev flag imp s)) (Suc (free s)) =
                 Some (React_literal dev imp (free s))) \<and>
         (\<forall>n. n \<noteq> ''ConcurrentMode'' \<and> n \<noteq> ''unstable_ConcurrentMode'' \<longrightarrow>
              own_prop (snd (React dev True imp s)) (Suc (free s)) n =
              own_prop (snd (React dev False imp s)) (Suc (free s)) n) \<and>
         (\<forall>a. a \<noteq> Suc (free s) \<longrightarrow>
              heap (snd (React dev True imp s)) a = heap (snd (React dev False imp s)) a)"
proof -
  have r: "fst (React dev flag imp s) = Inr (Suc (free s))"
    by (simp add: React_loaded [OF assms])
  have others: "\<forall>n. n \<noteq> ''ConcurrentMode'' \<and> n \<noteq> ''unstable_ConcurrentMode'' \<longrightarrow>
      own_prop (snd (React dev True imp s)) (Suc (free s)) n =
      own_prop (snd (React dev False imp s)) (Suc (free s)) n"
    by (simp add: own_prop_React [OF assms] React_flagged_props)
  have frame: "\<forall>a. a \<noteq> Suc (free s) \<longrightarrow>
      heap (snd (React dev True imp s)) a = heap (snd (React dev False imp s)) a"
    by (simp add: React_loaded [OF assms])
  have gate: "if flag
      then get (Suc (free s)) ''ConcurrentMode'' (snd (React dev flag imp s)) =
             (Inr (imp ''REACT_CONCURRENT_MODE_TYPE''), snd (React dev flag imp s)) \<and>
           get (Suc (free s)) ''unstable_ConcurrentMode'' (snd (React dev flag imp s)) =
             (Inr Undefined, snd (React dev flag imp s)) \<and>
           own_prop (snd (React dev flag imp s)) (Suc (free s)) ''unstable_ConcurrentMode'' =
             Some (Data Undefined True True True)
      else get (Suc (free s)) ''unstable_ConcurrentMode'' (snd (React dev flag imp s)) =
             (Inr (imp ''REACT_CONCURRENT_MODE_TYPE''), snd (React dev flag imp s)) \<and>
           own_prop (snd (React dev flag imp s)) (Suc (free s)) ''ConcurrentMode'' = None \<and>
           get (Suc (free s)) ''ConcurrentMode'' (snd (React dev flag imp s)) =
             (Inr Undefined, snd (React dev flag imp s)) \<and>
           heap (snd (React dev flag imp s)) (Suc (free s)) =
             Some (React_literal dev imp (free s))"
  proof (cases flag)
    case True
    then show ?thesis
      by (simp add: get_def lookup_React [OF assms] own_prop_React [OF assms]
          React_flagged_props ret_def)
  next
    case False
    have "heap (snd (React dev False imp s)) (Suc (free s)) =
        Some (React_literal dev imp (free s))"
      by (simp add: React_loaded [OF assms])
    with False show ?thesis
      by (simp add: get_def lookup_React [OF assms] own_prop_React [OF assms]
          React_literal_facts ret_def)
  qed
  from r gate others frame show ?thesis by blast
qed

theorem ConcurrentMode_gate_witness:
  "loaded True (loaded_state True) \<and>
   fst (React True True Symbol (loaded_state True)) = Inr (Suc first_free) \<and>
   fst (get (Suc first_free) ''ConcurrentMode'' (snd (React True True Symbol (loaded_state True)))) =
     Inr (Symbol ''REACT_CONCURRENT_MODE_TYPE'') \<and>
   fst (get (Suc first_free) ''unstable_ConcurrentMode''
          (snd (React True True Symbol (loaded_state True)))) =
     Inr Undefined \<and>
   fst (get (Suc first_free) ''unstable_ConcurrentMode''
          (snd (React True False Symbol (loaded_state True)))) =
     Inr (Symbol ''REACT_CONCURRENT_MODE_TYPE'') \<and>
   own_prop (snd (React True False Symbol (loaded_state True))) (Suc first_free)
     ''ConcurrentMode'' = None"
  using ConcurrentMode_gate [OF loaded_loaded_state [of True], where flag = True
      and imp = Symbol]
    ConcurrentMode_gate [OF loaded_loaded_state [of True], where flag = False
      and imp = Symbol]
    loaded_loaded_state [of True]
  by (simp add: free_loaded_state)

text \<open>
  C8. Let \<open>n\<close> be \<^verbatim>\<open>isMounted\<close> or \<^verbatim>\<open>replaceState\<close> and \<open>advice\<close> the second string
  the table of lines 111 to 122 gives for it. In a development build, reading \<open>n\<close> on
  a fresh Component or PureComponent instance gives undefined and leaves the state as
  it was but for exactly one more warning, the deprecation format with \<open>n\<close> and
  \<open>advice\<close>; so does every later read, in any state with the same heap; the member is
  an accessor property found on the prototype chain. In a production build no such
  property is found and a read gives undefined with no warning.
\<close>

theorem deprecated_members:
  assumes "loaded dev s"
    and "n = ''isMounted'' \<and>
         advice =
           ''Instead, make sure to clean up subscriptions and pending requests in '' @
        ''componentWillUnmount to prevent memory leaks.'' \<or>
         n = ''replaceState'' \<and>
         advice =
           ''Refactor your code to use setState instead (see '' @
        ''https://github.com/facebook/react/issues/3236).''"
  shows "if dev
         then get (free s) n (snd (new_Component p c u s)) =
                (Inr Undefined,
                 (snd (new_Component p c u s))
                   \<lparr>warnings := warnings (snd (new_Component p c u s)) @
                      [(''%s(...) is deprecated in plain JavaScript React classes. %s'', [n, advice])]\<rparr>) \<and>
              get (free s) n (snd (new_PureComponent p c u s)) =
                (Inr Undefined,
                 (snd (new_PureComponent p c u s))
                   \<lparr>warnings := warnings (snd (new_PureComponent p c u s)) @
                      [(''%s(...) is deprecated in plain JavaScript React classes. %s'', [n, advice])]\<rparr>) \<and>
              (\<forall>s'. heap s' = heap (snd (new_Component p c u s)) \<or>
                    heap s' = heap (snd (new_PureComponent p c u s)) \<longrightarrow>
                 get (free s) n s' =
                   (Inr Undefined, s'\<lparr>warnings := warnings s' @ [(''%s(...) is deprecated in plain JavaScript React classes. %s'', [n, advice])]\<rparr>)) \<and>
              lookup (heap (snd (new_Component p c u s))) (free s) n =
                Some (Accessor (n, advice) False False) \<and>
              lookup (heap (snd (new_PureComponent p c u s))) (free s) n =
                Some (Accessor (n, advice) False False)
         else lookup (heap (snd (new_Component p c u s))) (free s) n = None \<and>
              lookup (heap (snd (new_PureComponent p c u s))) (free s) n = None \<and>
              get (free s) n (snd (new_Component p c u s)) =
                (Inr Undefined, snd (new_Component p c u s)) \<and>
              get (free s) n (snd (new_PureComponent p c u s)) =
                (Inr Undefined, snd (new_PureComponent p c u s))"
proof -
  have m: "(n, (n, advice)) \<in> set deprecatedAPIs"
    using assms(2) by (auto simp: deprecatedAPIs_def)
  note tabs = deprecated_tables [OF m]
  note look = lookup_Component_instance [OF assms(1)] lookup_PureComponent_instance [OF assms(1)]
  show ?thesis
  proof (cases dev)
    case True
    have lc: "lookup (heap (snd (new_Component p c u s))) (free s) n =
        Some (Accessor (n, advice) False False)"
      using True by (simp add: look tabs)
    have lp: "lookup (heap (snd (new_PureComponent p c u s))) (free s) n =
        Some (Accessor (n, advice) False False)"
      using True by (simp add: look tabs)
    have every: "get (free s) n s' =
        (Inr Undefined, s'\<lparr>warnings := warnings s' @ [(''%s(...) is deprecated in plain JavaScript React classes. %s'', [n, advice])]\<rparr>)"
      if "heap s' = heap (snd (new_Component p c u s)) \<or>
          heap s' = heap (snd (new_PureComponent p c u s))" for s'
    proof -
      have "lookup (heap s') (free s) n = Some (Accessor (n, advice) False False)"
        using that lc lp by auto
      then show ?thesis by (simp add: get_def deprecation_getter_eq)
    qed
    from True lc lp every show ?thesis by simp
  next
    case False
    then show ?thesis
      by (simp add: get_Component_instance [OF assms(1)]
          get_PureComponent_instance [OF assms(1)] look tabs ret_def)
  qed
qed

theorem deprecated_members_witness:
  "loaded True (loaded_state True) \<and>
   get first_free ''isMounted'' sample =
     (Inr Undefined,
      sample\<lparr>warnings := warnings sample @
        [(''%s(...) is deprecated in plain JavaScript React classes. %s'',
          [''isMounted'',
           ''Instead, make sure to clean up subscriptions and pending requests in '' @
        ''componentWillUnmount to prevent memory leaks.''])]\<rparr>) \<and>
   get first_free ''replaceState'' pure_sample =
     (Inr Undefined,
      pure_sample\<lparr>warnings := warnings pure_sample @
        [(''%s(...) is deprecated in plain JavaScript React classes. %s'',
          [''replaceState'',
           ''Refactor your code to use setState instead (see '' @
        ''https://github.com/facebook/react/issues/3236).''])]\<rparr>) \<and>
   lookup (heap sample) first_free ''replaceState'' =
     Some (Accessor
             (''replaceState'',
              ''Refactor your code to use setState instead (see '' @
        ''https://github.com/facebook/react/issues/3236).'')
             False False)"
proof -
  note l = loaded_loaded_state [of True]
  note A = deprecated_members [OF l, where n = "''isMounted''"
      and advice = "''Instead, make sure to clean up subscriptions and pending requests in '' @
        ''componentWillUnmount to prevent memory leaks.''"
      and p = "Str ''props''" and c = Null and u = Undefined,
      unfolded free_loaded_state, folded sample_def pure_sample_def]
  note B = deprecated_members [OF l, where n = "''replaceState''"
      and advice = "''Refactor your code to use setState instead (see '' @
        ''https://github.com/facebook/react/issues/3236).''"
      and p = "Str ''props''" and c = Null and u = Undefined,
      unfolded free_loaded_state, folded sample_def pure_sample_def]
  have a: "get first_free ''isMounted'' sample =
      (Inr Undefined,
       sample\<lparr>warnings := warnings sample @
         [(''%s(...) is deprecated in plain JavaScript React classes. %s'',
           [''isMounted'',
            ''Instead, make sure to clean up subscriptions and pending requests in '' @
        ''componentWillUnmount to prevent memory leaks.''])]\<rparr>)"
    using A by simp
  have b: "get first_free ''replaceState'' pure_sample =
        (Inr Undefined,
         pure_sample\<lparr>warnings := warnings pure_sample @
           [(''%s(...) is deprecated in plain JavaScript React classes. %s'',
             [''replaceState'',
              ''Refactor your code to use setState instead (see '' @
        ''https://github.com/facebook/react/issues/3236).''])]\<rparr>)"
      "lookup (heap sample) first_free ''replaceState'' =
        Some (Accessor
                (''replaceState'',
                 ''Refactor your code to use setState instead (see '' @
        ''https://github.com/facebook/react/issues/3236).'')
                False False)"
    using B by simp_all
  from l a b show ?thesis by simp
qed

text \<open>
  C9. When \<^verbatim>\<open>setState\<close> raises an error, no call was made on the updater, the heap
  is as it was, and so is every own property of the instance (\<^verbatim>\<open>props\<close>,
  \<^verbatim>\<open>context\<close>, \<^verbatim>\<open>refs\<close>, \<^verbatim>\<open>updater\<close>); when the error is the validation error, the
  whole state is the one before the call.
\<close>

theorem setState_failure_no_effect:
  assumes "fst (setState this v cb s) = Inl err"
  shows "(\<forall>m. err = InvariantViolation m \<longrightarrow> snd (setState this v cb s) = s) \<and>
         calls (snd (setState this v cb s)) = calls s \<and>
         heap (snd (setState this v cb s)) = heap s \<and>
         (\<forall>f. own_prop (snd (setState this v cb s)) this f = own_prop s this f)"
proof -
  have whole: "snd (setState this v cb s) = s" if "err = InvariantViolation m" for m
  proof (cases "case v of Ref a \<Rightarrow> True | Null \<Rightarrow> True | Undefined \<Rightarrow> True | _ \<Rightarrow> False")
    case True
    from setState_no_violation [OF True, of this cb s m] assms that show ?thesis by simp
  next
    case False
    then show ?thesis by (simp add: setState_invalid)
  qed
  have c: "calls (snd (setState this v cb s)) = calls s"
    by (rule setState_error [OF assms])
  have h: "heap (snd (setState this v cb s)) = heap s"
    by (rule heap_setState)
  from whole c h show ?thesis by (simp add: own_prop_def)
qed

theorem setState_failure_no_effect_witness:
  "fst (setState first_free (Number 3) Undefined sample) =
     Inl (InvariantViolation (''setState(...): takes an object of state variables to update or a '' @
             ''function which returns an object of state variables.'')) \<and>
   snd (setState first_free (Number 3) Undefined sample) = sample \<and>
   calls (snd (setState first_free (Number 3) Undefined sample)) = calls sample \<and>
   (\<forall>f. own_prop (snd (setState first_free (Number 3) Undefined sample)) first_free f =
        own_prop sample first_free f)"
proof -
  have err: "fst (setState first_free (Number 3) Undefined sample) =
      Inl (InvariantViolation (''setState(...): takes an object of state variables to update or a '' @
             ''function which returns an object of state variables.''))"
    by (simp add: setState_invalid)
  show ?thesis
    using setState_failure_no_effect [OF err] err by simp
qed

text \<open>
  C10. In a state where the module is loaded, after \<^verbatim>\<open>new Component\<close> or
  \<^verbatim>\<open>new PureComponent\<close> the own properties of the instance are \<^verbatim>\<open>props\<close>,
  \<^verbatim>\<open>context\<close>, \<^verbatim>\<open>refs\<close>, \<^verbatim>\<open>updater\<close>, in this order, and no others; every other
  object of the heap, the calls and the warnings are as before; \<^verbatim>\<open>state\<close> is found
  nowhere along the prototype chain of the instance, and reading it gives undefined.
\<close>

theorem constructors_assign_four_fields:
  assumes "loaded dev s"
  shows "own_keys (snd (new_Component p c u s)) (free s) =
           [''props'', ''context'', ''refs'', ''updater''] \<and>
         own_keys (snd (new_PureComponent p c u s)) (free s) =
           [''props'', ''context'', ''refs'', ''updater''] \<and>
         (\<forall>a. a \<noteq> free s \<longrightarrow>
            heap (snd (new_Component p c u s)) a = heap s a \<and>
            heap (snd (new_PureComponent p c u s)) a = heap s a) \<and>
         calls (snd (new_Component p c u s)) = calls s \<and>
         calls (snd (new_PureComponent p c u s)) = calls s \<and>
         warnings (snd (new_Component p c u s)) = warnings s \<and>
         warnings (snd (new_PureComponent p c u s)) = warnings s \<and>
         lookup (heap (snd (new_Component p c u s))) (free s) ''state'' = None \<and>
         lookup (heap (snd (new_PureComponent p c u s))) (free s) ''state'' = None \<and>
         get (free s) ''state'' (snd (new_Component p c u s)) =
           (Inr Undefined, snd (new_Component p c u s)) \<and>
         get (free s) ''state'' (snd (new_PureComponent p c u s)) =
           (Inr Undefined, snd (new_PureComponent p c u s))"
proof -
  have keys: "own_keys (snd (new_Component p c u s)) (free s) =
        [''props'', ''context'', ''refs'', ''updater'']"
      "own_keys (snd (new_PureComponent p c u s)) (free s) =
        [''props'', ''context'', ''refs'', ''updater'']"
    by (simp_all add: own_keys_def heap_new [OF assms] instance_obj_def instance_props_def)
  have frame: "\<forall>a. a \<noteq> free s \<longrightarrow>
        heap (snd (new_Component p c u s)) a = heap s a \<and>
        heap (snd (new_PureComponent p c u s)) a = heap s a"
    by (simp add: heap_new [OF assms])
  have state: "lookup (heap (snd (new_Component p c u s))) (free s) ''state'' = None"
      "lookup (heap (snd (new_PureComponent p c u s))) (free s) ''state'' = None"
    by (simp_all add: lookup_Component_instance [OF assms]
        lookup_PureComponent_instance [OF assms] table_defs)
  have gets: "get (free s) ''state'' (snd (new_Component p c u s)) =
        (Inr Undefined, snd (new_Component p c u s))"
      "get (free s) ''state'' (snd (new_PureComponent p c u s)) =
        (Inr Undefined, snd (new_PureComponent p c u s))"
    by (simp_all add: get_def state ret_def)
  show ?thesis
    using frame by (simp only: keys state gets traces_new [OF assms] simp_thms)
qed

theorem constructors_assign_four_fields_witness:
  "loaded True (loaded_state True) \<and>
   own_keys sample first_free = [''props'', ''context'', ''refs'', ''updater''] \<and>
   own_keys pure_sample first_free = [''props'', ''context'', ''refs'', ''updater''] \<and>
   heap sample emptyObject = heap (loaded_state True) emptyObject \<and>
   calls sample = calls (loaded_state True) \<and>
   warnings sample = warnings (loaded_state True) \<and>
   lookup (heap sample) first_free ''state'' = None \<and>
   get first_free ''state'' sample = (Inr Undefined, sample)"
  using constructors_assign_four_fields [OF loaded_loaded_state [of True],
      where p = "Str ''props''" and c = Null and u = Undefined]
    loaded_loaded_state [of True]
  by (simp add: sample_def pure_sample_def free_loaded_state)

end
